theory Spec2Isabelle
  imports Complex_Main "HOL-Library.Char_ord" "HOL-Library.List_Lexorder"
begin

section \<open>Data model\<close>

text \<open>
  The dashboard of \<^verbatim>\<open>app.py\<close> works on pandas tables. A cell holds a number, the
  missing value \<^verbatim>\<open>NaN\<close>, or a text. Finite floating-point numbers are read as reals:
  the program compares them with each other and with the constants 10 and 50, and adds
  them up for the metrics.
\<close>

datatype valor = Num real | NaN | Texto string

text \<open>
  The index of the incident table is the parsed column \<^verbatim>\<open>fecha\<close>; an empty date is
  \<^verbatim>\<open>NaT\<close>, whose year component is missing.
\<close>

datatype fecha = NaT | Fecha int nat nat

fun year :: "fecha \<Rightarrow> int option" where
  "year NaT = None"
| "year (Fecha y m d) = Some y"

text \<open>
  A table has its column names and its rows. A row of the reference table is only its
  cells; a row of the incident table also carries its index entry. Cells are a total
  function of the column name; reading a column that is not among \<open>columnas\<close> raises
  \<^verbatim>\<open>KeyError\<close> in pandas, which the operations below write out.
\<close>

type_synonym celdas = "string \<Rightarrow> valor"

record fila =
  fecha :: fecha
  celda :: celdas

record 'r dataframe =
  columnas :: "string list"
  filas :: "'r list"

type_synonym tabla = "celdas dataframe"
type_synonym incendios = "fila dataframe"

definition DataFrame :: "'r dataframe" where
  \<comment> \<open>\<^verbatim>\<open>pd.DataFrame()\<close>\<close>
  "DataFrame = \<lparr>columnas = [], filas = []\<rparr>"

definition empty :: "'r dataframe \<Rightarrow> bool" where
  \<comment> \<open>\<^verbatim>\<open>df.empty\<close>: some axis has length 0\<close>
  "empty df = (columnas df = [] \<or> filas df = [])"

text \<open>Exceptions carry their message; \<^verbatim>\<open>f"{e}"\<close> prints it.\<close>

datatype excepcion =
    FileNotFoundError string
  | KeyError string
  | TypeError string
  | Exception string

fun mensaje :: "excepcion \<Rightarrow> string" where
  "mensaje (FileNotFoundError s) = s"
| "mensaje (KeyError s) = s"
| "mensaje (TypeError s) = s"
| "mensaje (Exception s) = s"

text \<open>The outcome of reading a file: the exception raised, or the content read.\<close>

datatype 'a lectura = Falla excepcion | Exito 'a

text \<open>
  What the script shows. The texts of the messages are fixed in the source; each is a
  constructor here, with the values the source formats into it.
\<close>

datatype texto_aviso =
    No_se_encuentra string          \<comment> \<open>line 47, with \<^verbatim>\<open>archivo_meta\<close>\<close>
  | Error_leyendo_metadatos string  \<comment> \<open>line 50, with \<^verbatim>\<open>e\<close>\<close>
  | Error_cargando_datos string     \<comment> \<open>line 125, with \<^verbatim>\<open>e\<close>\<close>
  | Esperando_datos                 \<comment> \<open>line 131\<close>
  | Hay_puntos nat                  \<comment> \<open>line 187, with \<^verbatim>\<open>len(df_mapa)\<close>\<close>
  | No_hay_coordenadas              \<comment> \<open>line 214\<close>

datatype marcador = CircleMarker valor valor string  \<comment> \<open>lines 205-210: \<^verbatim>\<open>lat\<close>, \<^verbatim>\<open>lng\<close>, \<^verbatim>\<open>color\<close>\<close>

datatype selector = Comunidad_Autonoma | Provincia | Municipio

datatype metrica = Total_Incendios | Superficie_ha | Gastos_Extincion | Perdidas_Economicas

datatype elemento =
    st_warning texto_aviso
  | st_error texto_aviso
  | st_info texto_aviso
  | st_selectbox selector "string list"   \<comment> \<open>lines 147, 154, 161: the label and the options\<close>
  | st_metric metrica real                \<comment> \<open>lines 173-176\<close>
  | st_folium "marcador list"             \<comment> \<open>line 212: the map with its markers\<close>

section \<open>Metadata: \<^verbatim>\<open>cargar_maestros\<close>\<close>

type_synonym diccionario = "valor \<rightharpoonup> valor"
type_synonym maestros = "string \<rightharpoonup> diccionario"

definition dropna2 :: "string \<Rightarrow> string \<Rightarrow> celdas list \<Rightarrow> celdas list" where
  \<comment> \<open>\<^verbatim>\<open>df_meta[[a, b]].dropna()\<close>: the rows where neither cell is missing\<close>
  "dropna2 a b rs = filter (\<lambda>r. r a \<noteq> NaN \<and> r b \<noteq> NaN) rs"

definition dict_zip :: "valor list \<Rightarrow> valor list \<Rightarrow> diccionario" where
  \<comment> \<open>\<^verbatim>\<open>dict(zip(ks, vs))\<close>: a later pair replaces an earlier one with the same key\<close>
  "dict_zip ks vs = foldl (\<lambda>m (k, v). m(k \<mapsto> v)) Map.empty (zip ks vs)"

definition dict_de :: "string \<Rightarrow> string \<Rightarrow> tabla \<Rightarrow> diccionario" where
  \<comment> \<open>lines 31-32, 36-37, 42-44\<close>
  "dict_de a b df_meta =
     (let df_sub = dropna2 a b (filas df_meta)
      in dict_zip (map (\<lambda>r. r a) df_sub) (map (\<lambda>r. r b) df_sub))"

definition leer_maestros :: "tabla lectura \<Rightarrow> excepcion + maestros" where
  \<comment> \<open>the body of the \<^verbatim>\<open>try\<close>, lines 27-44\<close>
  "leer_maestros excel =
     (case excel of
        Falla e \<Rightarrow> Inl e
      | Exito df_meta \<Rightarrow>
          (let maestros = Map.empty;
               maestros =
                 (if ''idcomunidad'' \<in> set (columnas df_meta) \<and> ''comunidad'' \<in> set (columnas df_meta)
                  then maestros(''comunidades'' \<mapsto> dict_de ''idcomunidad'' ''comunidad'' df_meta)
                  else maestros);
               maestros =
                 (if ''idprovincia'' \<in> set (columnas df_meta) \<and> ''provincia'' \<in> set (columnas df_meta)
                  then maestros(''provincias'' \<mapsto> dict_de ''idprovincia'' ''provincia'' df_meta)
                  else maestros);
               maestros =
                 (if ''causa'' \<in> set (columnas df_meta) \<and> ''causa_label'' \<in> set (columnas df_meta)
                  then maestros(''causas'' \<mapsto> dict_de ''causa'' ''causa_label'' df_meta)
                  else maestros)
           in Inr maestros))"

definition archivo_meta :: string where
  "archivo_meta = ''master_data.xlsx''"

definition cargar_maestros :: "tabla lectura \<Rightarrow> excepcion + (elemento list \<times> maestros)" where
  \<comment> \<open>lines 21-53: the warnings shown with \<^verbatim>\<open>st.warning\<close>, and the dictionaries returned\<close>
  "cargar_maestros excel =
     (case leer_maestros excel of
        Inr maestros \<Rightarrow> Inr ([], maestros)
      | Inl (FileNotFoundError s) \<Rightarrow> Inr ([st_warning (No_se_encuentra archivo_meta)], Map.empty)
      | Inl e \<Rightarrow> Inr ([st_warning (Error_leyendo_metadatos (mensaje e))], Map.empty))"

section \<open>The pandas operations the loader uses\<close>

text \<open>
  Two functions of the library are parameters of the model: the parser that
  \<^verbatim>\<open>pd.to_numeric\<close> applies to a text, and the printing of a number by
  \<^verbatim>\<open>astype(str)\<close>, which depends on the type pandas gave the column
  (\<^verbatim>\<open>'3'\<close> in an integer column, \<^verbatim>\<open>'3.0'\<close> in a float one) and so takes the column.
\<close>

record pandas =
  parse_num :: "string \<Rightarrow> real option"
  str_num :: "valor list \<Rightarrow> real \<Rightarrow> string"

fun coerce :: "pandas \<Rightarrow> valor \<Rightarrow> valor" where
  "coerce pd (Num x) = Num x"
| "coerce pd NaN = NaN"
| "coerce pd (Texto s) = (case parse_num pd s of Some x \<Rightarrow> Num x | None \<Rightarrow> NaN)"

definition to_numeric :: "pandas \<Rightarrow> valor list \<Rightarrow> valor list" where
  \<comment> \<open>\<^verbatim>\<open>pd.to_numeric(col, errors='coerce')\<close>\<close>
  "to_numeric pd col = map (coerce pd) col"

fun str_valor :: "(real \<Rightarrow> string) \<Rightarrow> valor \<Rightarrow> string" where
  "str_valor f (Num x) = f x"
| "str_valor f NaN = ''nan''"
| "str_valor f (Texto s) = s"

definition astype_str :: "pandas \<Rightarrow> valor list \<Rightarrow> string list" where
  \<comment> \<open>\<^verbatim>\<open>col.astype(str)\<close>: the missing value becomes the text \<^verbatim>\<open>'nan'\<close>, as in pandas 1 and 2\<close>
  "astype_str pd col = map (str_valor (str_num pd col)) col"

definition map_dict :: "diccionario \<Rightarrow> valor list \<Rightarrow> valor list" where
  \<comment> \<open>\<^verbatim>\<open>col.map(d)\<close>: a value that is no key of \<open>d\<close> becomes missing\<close>
  "map_dict d col = map (\<lambda>v. case d v of Some l \<Rightarrow> l | None \<Rightarrow> NaN) col"

definition fillna :: "valor list \<Rightarrow> valor list \<Rightarrow> valor list" where
  \<comment> \<open>\<^verbatim>\<open>col.fillna(otra)\<close>, both on the same index\<close>
  "fillna col otra = map (\<lambda>(v, w). if v = NaN then w else v) (zip col otra)"

definition columna :: "string \<Rightarrow> incendios \<Rightarrow> valor list" where
  \<comment> \<open>\<^verbatim>\<open>df[c]\<close>, for a column the caller has checked\<close>
  "columna c df = map (\<lambda>r. celda r c) (filas df)"

definition asignar :: "string \<Rightarrow> valor list \<Rightarrow> incendios \<Rightarrow> incendios" where
  \<comment> \<open>\<^verbatim>\<open>df[c] = vs\<close>: a new column goes last\<close>
  "asignar c vs df =
     \<lparr>columnas = (if c \<in> set (columnas df) then columnas df else columnas df @ [c]),
      filas = map (\<lambda>(r, v). r\<lparr>celda := (celda r)(c := v)\<rparr>) (zip (filas df) vs)\<rparr>"

definition asignar_escalar :: "string \<Rightarrow> valor \<Rightarrow> incendios \<Rightarrow> incendios" where
  \<comment> \<open>\<^verbatim>\<open>df[c] = v\<close> for one value \<open>v\<close>: every row gets it\<close>
  "asignar_escalar c v df = asignar c (replicate (length (filas df)) v) df"

section \<open>The loader: \<^verbatim>\<open>cargar_datos\<close>\<close>

definition nombres :: "pandas \<Rightarrow> string \<Rightarrow> string \<Rightarrow> string \<Rightarrow> maestros \<Rightarrow> incendios \<Rightarrow> incendios" where
  \<comment> \<open>lines 76-84 with \<^verbatim>\<open>idcomunidad\<close>, \<^verbatim>\<open>comunidades\<close>, \<^verbatim>\<open>nombre_comunidad\<close>;
      lines 87-93 with \<^verbatim>\<open>idprovincia\<close>, \<^verbatim>\<open>provincias\<close>, \<^verbatim>\<open>nombre_provincia\<close>\<close>
  "nombres pd col_id clave col_nombre diccionarios df =
     (if col_id \<in> set (columnas df) then
        (let df = asignar col_id (to_numeric pd (columna col_id df)) df
         in case diccionarios clave of
              Some d \<Rightarrow>
                (let df = asignar col_nombre (map_dict d (columna col_id df)) df
                 in asignar col_nombre
                      (fillna (columna col_nombre df) (map Texto (astype_str pd (columna col_id df)))) df)
            | None \<Rightarrow> df)
      else asignar_escalar col_nombre (Texto ''Desconocido'') df)"

definition col_causa_id :: "string list \<Rightarrow> string" where
  \<comment> \<open>lines 99-104\<close>
  "col_causa_id cols =
     (let col_causa_id = ''causa''
      in if col_causa_id \<notin> set cols then
           (if ''idcausa'' \<in> set cols then ''idcausa''
            else if ''causa_desc'' \<in> set cols then ''causa_desc''
            else col_causa_id)
         else col_causa_id)"

definition causas :: "pandas \<Rightarrow> maestros \<Rightarrow> incendios \<Rightarrow> incendios" where
  \<comment> \<open>lines 99-114\<close>
  "causas pd diccionarios df =
     (let c = col_causa_id (columnas df)
      in if c \<in> set (columnas df) then
           (let df = asignar c (to_numeric pd (columna c df)) df
            in case diccionarios ''causas'' of
                 Some d \<Rightarrow>
                   (let df = asignar ''causa_texto'' (map_dict d (columna c df)) df
                    in asignar ''causa_texto''
                         (fillna (columna ''causa_texto'' df)
                            (map (\<lambda>s. Texto (''Causa '' @ s)) (astype_str pd (columna c df)))) df)
               | None \<Rightarrow> asignar ''causa_texto'' (columna c df) df)
         else asignar_escalar ''causa_texto'' (Texto ''No especificado'') df)"

definition cols_num :: "string list" where
  "cols_num = [''superficie'', ''gastos'', ''perdidas'', ''lat'', ''lng'']"

definition numericos :: "pandas \<Rightarrow> incendios \<Rightarrow> incendios" where
  \<comment> \<open>lines 117-120\<close>
  "numericos pd df =
     foldl (\<lambda>df col. if col \<in> set (columnas df)
                       then asignar col (to_numeric pd (columna col df)) df else df)
       df cols_num"

definition con_nombres :: "pandas \<Rightarrow> maestros \<Rightarrow> incendios \<Rightarrow> incendios" where
  \<comment> \<open>lines 76-93: the region step, then the province step\<close>
  "con_nombres pd diccionarios df =
     nombres pd ''idprovincia'' ''provincias'' ''nombre_provincia'' diccionarios
       (nombres pd ''idcomunidad'' ''comunidades'' ''nombre_comunidad'' diccionarios df)"

definition traducir :: "pandas \<Rightarrow> maestros \<Rightarrow> incendios \<Rightarrow> incendios" where
  \<comment> \<open>lines 76-120, on the table that \<^verbatim>\<open>read_csv\<close> returned\<close>
  "traducir pd diccionarios df =
     numericos pd (causas pd diccionarios (con_nombres pd diccionarios df))"

definition endswith :: "string \<Rightarrow> string \<Rightarrow> bool" where
  "endswith s suf = (drop (length s - length suf) s = suf)"

fun contiene :: "string \<Rightarrow> string \<Rightarrow> bool" where
  \<comment> \<open>\<^verbatim>\<open>sub in s\<close>\<close>
  "contiene sub [] = (sub = [])"
| "contiene sub (c # cs) = (take (length sub) (c # cs) = sub \<or> contiene sub cs)"

text \<open>
  What the loader reads: the outcome of \<^verbatim>\<open>pd.read_excel\<close> on the reference file, and
  the outcome of opening the archive, which gives its member names, each with the
  outcome of \<^verbatim>\<open>z.open\<close> and \<^verbatim>\<open>pd.read_csv\<close> on it (the column \<^verbatim>\<open>fecha\<close> parsed and
  made the index).
\<close>

record entorno =
  excel :: "tabla lectura"
  archivo_zip :: "(string \<times> incendios lectura) list lectura"

definition leer_datos :: "pandas \<Rightarrow> entorno \<Rightarrow> elemento list \<times> (excepcion + incendios)" where
  \<comment> \<open>the body of the \<^verbatim>\<open>try\<close>, lines 61-122: what was shown, and the exception or the table\<close>
  "leer_datos pd env =
     (case cargar_maestros (excel env) of
        Inl e \<Rightarrow> ([], Inl e)
      | Inr (avisos, diccionarios) \<Rightarrow>
          (case archivo_zip env of
             Falla e \<Rightarrow> (avisos, Inl e)
           | Exito z \<Rightarrow>
               (let archivos_csv =
                      filter (\<lambda>(f, csv). endswith f ''.csv'' \<and> \<not> contiene ''__MACOSX'' f) z
                in case archivos_csv of
                     [] \<Rightarrow> (avisos, Inr DataFrame)
                   | (f, csv) # otros \<Rightarrow>
                       (case csv of
                          Falla e \<Rightarrow> (avisos, Inl e)
                        | Exito df \<Rightarrow> (avisos, Inr (traducir pd diccionarios df))))))"

definition cargar_datos :: "pandas \<Rightarrow> entorno \<Rightarrow> elemento list \<times> incendios" where
  \<comment> \<open>lines 56-126\<close>
  "cargar_datos pd env =
     (case leer_datos pd env of
        (avisos, Inr df) \<Rightarrow> (avisos, df)
      | (avisos, Inl e) \<Rightarrow> (avisos @ [st_error (Error_cargando_datos (mensaje e))], DataFrame))"

section \<open>The script: filters, metrics and map\<close>

text \<open>
  The statements of the script run in order; each may show elements and may raise. A
  computation is the list of elements shown, and the exception raised or the value.
\<close>

type_synonym 'a guion = "elemento list \<times> (excepcion + 'a)"

definition luego :: "'a guion \<Rightarrow> ('a \<Rightarrow> 'b guion) \<Rightarrow> 'b guion" where
  "luego m f =
     (case m of
        (es, Inl e) \<Rightarrow> (es, Inl e)
      | (es, Inr x) \<Rightarrow> (case f x of (es', r) \<Rightarrow> (es @ es', r)))"

definition leer :: "string \<Rightarrow> incendios \<Rightarrow> excepcion + valor list" where
  \<comment> \<open>\<^verbatim>\<open>df[c]\<close>\<close>
  "leer c df = (if c \<in> set (columnas df) then Inr (columna c df) else Inl (KeyError c))"

definition seleccionar :: "bool list \<Rightarrow> 'a list \<Rightarrow> 'a list" where
  \<comment> \<open>\<^verbatim>\<open>df[mask]\<close>: the rows whose entry of the mask is true\<close>
  "seleccionar mascara rs = map snd (filter fst (zip mascara rs))"

definition year_ge :: "fecha \<Rightarrow> int \<Rightarrow> bool" where
  \<comment> \<open>\<^verbatim>\<open>df.index.year >= y\<close>: false where the year is missing\<close>
  "year_ge f y = (case year f of None \<Rightarrow> False | Some a \<Rightarrow> a \<ge> y)"

definition year_le :: "fecha \<Rightarrow> int \<Rightarrow> bool" where
  "year_le f y = (case year f of None \<Rightarrow> False | Some a \<Rightarrow> a \<le> y)"

definition filtro_anios :: "int \<Rightarrow> int \<Rightarrow> incendios \<Rightarrow> incendios" where
  \<comment> \<open>line 142\<close>
  "filtro_anios min_year max_year df =
     df\<lparr>filas :=
          seleccionar
            (map (\<lambda>(a, b). a \<and> b)
               (zip (map (\<lambda>r. year_ge (fecha r) min_year) (filas df))
                    (map (\<lambda>r. year_le (fecha r) max_year) (filas df))))
            (filas df)\<rparr>"

definition opciones :: "pandas \<Rightarrow> string \<Rightarrow> string \<Rightarrow> incendios \<Rightarrow> excepcion + string list" where
  \<comment> \<open>lines 146, 153, 160: \<^verbatim>\<open>[todas] + sorted(df[col].astype(str).unique().tolist())\<close>\<close>
  "opciones pd todas col df =
     (case leer col df of
        Inl e \<Rightarrow> Inl e
      | Inr vs \<Rightarrow> Inr ([todas] @ sort (remdups (astype_str pd vs))))"

definition filtrar :: "string \<Rightarrow> string \<Rightarrow> string \<Rightarrow> incendios \<Rightarrow> excepcion + incendios" where
  \<comment> \<open>lines 149-150, 156-157, 163-164\<close>
  "filtrar todas col sel df_filtrado =
     (if sel \<noteq> todas then
        (case leer col df_filtrado of
           Inl e \<Rightarrow> Inl e
         | Inr vs \<Rightarrow> Inr (df_filtrado\<lparr>filas := seleccionar (map (\<lambda>v. v = Texto sel) vs) (filas df_filtrado)\<rparr>))
      else Inr df_filtrado)"

text \<open>
  The choices of the user are inputs: the two ends of the year slider and the option
  picked in each of the three boxes.
\<close>

record seleccion =
  min_year :: int
  max_year :: int
  comunidad_sel :: string
  provincia_sel :: string
  municipio_sel :: string

definition caja :: "pandas \<Rightarrow> selector \<Rightarrow> string \<Rightarrow> string \<Rightarrow> string \<Rightarrow> incendios \<Rightarrow> incendios guion" where
  \<comment> \<open>one selector: its list, its box, its filter\<close>
  "caja pd etiqueta todas col sel df_filtrado =
     (case opciones pd todas col df_filtrado of
        Inl e \<Rightarrow> ([], Inl e)
      | Inr lista \<Rightarrow> ([st_selectbox etiqueta lista], filtrar todas col sel df_filtrado))"

definition barra_lateral :: "pandas \<Rightarrow> incendios \<Rightarrow> seleccion \<Rightarrow> incendios guion" where
  \<comment> \<open>lines 142-164\<close>
  "barra_lateral pd df sel =
     luego ([], Inr (filtro_anios (min_year sel) (max_year sel) df)) (\<lambda>df_filtrado.
     luego (caja pd Comunidad_Autonoma ''Todas'' ''nombre_comunidad'' (comunidad_sel sel) df_filtrado) (\<lambda>df_filtrado.
     luego (caja pd Provincia ''Todas'' ''nombre_provincia'' (provincia_sel sel) df_filtrado) (\<lambda>df_filtrado.
     caja pd Municipio ''Todos'' ''municipio'' (municipio_sel sel) df_filtrado)))"

fun suma :: "valor list \<Rightarrow> excepcion + real" where
  \<comment> \<open>\<^verbatim>\<open>col.sum()\<close>: missing values are skipped\<close>
  "suma [] = Inr 0"
| "suma (Num x # vs) = (case suma vs of Inl e \<Rightarrow> Inl e | Inr t \<Rightarrow> Inr (x + t))"
| "suma (NaN # vs) = suma vs"
| "suma (Texto s # vs) = Inl (TypeError s)"

definition fillna0 :: "valor list \<Rightarrow> valor list" where
  \<comment> \<open>\<^verbatim>\<open>col.fillna(0)\<close>\<close>
  "fillna0 col = map (\<lambda>v. if v = NaN then Num 0 else v) col"

definition metric_suma :: "metrica \<Rightarrow> excepcion + valor list \<Rightarrow> unit guion" where
  "metric_suma etiqueta col =
     (case col of
        Inl e \<Rightarrow> ([], Inl e)
      | Inr vs \<Rightarrow> (case suma vs of Inl e \<Rightarrow> ([], Inl e) | Inr t \<Rightarrow> ([st_metric etiqueta t], Inr ())))"

definition metricas :: "incendios \<Rightarrow> unit guion" where
  \<comment> \<open>lines 173-176\<close>
  "metricas df_filtrado =
     luego ([st_metric Total_Incendios (real (length (filas df_filtrado)))], Inr ()) (\<lambda>u.
     luego (metric_suma Superficie_ha (leer ''superficie'' df_filtrado)) (\<lambda>u.
     luego (metric_suma Gastos_Extincion (map_sum id fillna0 (leer ''gastos'' df_filtrado))) (\<lambda>u.
     metric_suma Perdidas_Economicas (map_sum id fillna0 (leer ''perdidas'' df_filtrado)))))"

definition dropna :: "string list \<Rightarrow> incendios \<Rightarrow> excepcion + incendios" where
  \<comment> \<open>\<^verbatim>\<open>df.dropna(subset=cs)\<close>\<close>
  "dropna cs df =
     (case filter (\<lambda>c. c \<notin> set (columnas df)) cs of
        [] \<Rightarrow> Inr (df\<lparr>filas := filter (\<lambda>r. list_all (\<lambda>c. celda r c \<noteq> NaN) cs) (filas df)\<rparr>)
      | c # otras \<Rightarrow> Inl (KeyError c))"

fun mayor :: "valor \<Rightarrow> real \<Rightarrow> excepcion + bool" where
  \<comment> \<open>\<^verbatim>\<open>sup > t\<close>: false for the missing value, a \<^verbatim>\<open>TypeError\<close> for a text\<close>
  "mayor (Num x) t = Inr (x > t)"
| "mayor NaN t = Inr False"
| "mayor (Texto s) t = Inl (TypeError s)"

definition color :: "valor \<Rightarrow> excepcion + string" where
  \<comment> \<open>line 195, on \<^verbatim>\<open>sup\<close>\<close>
  "color superficie =
     (case mayor superficie 50 of
        Inl e \<Rightarrow> Inl e
      | Inr True \<Rightarrow> Inr ''darkred''
      | Inr False \<Rightarrow>
          (case mayor superficie 10 of
             Inl e \<Rightarrow> Inl e
           | Inr True \<Rightarrow> Inr ''orange''
           | Inr False \<Rightarrow> Inr ''green''))"

fun marcadores :: "string list \<Rightarrow> fila list \<Rightarrow> excepcion + marcador list" where
  \<comment> \<open>the loop of lines 193-210 over the rows of a table with columns \<open>cols\<close>\<close>
  "marcadores cols [] = Inr []"
| "marcadores cols (row # rows) =
     (if ''superficie'' \<notin> set cols then Inl (KeyError ''superficie'')
      else case color (celda row ''superficie'') of
             Inl e \<Rightarrow> Inl e
           | Inr c \<Rightarrow>
               (case marcadores cols rows of
                  Inl e \<Rightarrow> Inl e
                | Inr ms \<Rightarrow> Inr (CircleMarker (celda row ''lat'') (celda row ''lng'') c # ms)))"

definition mapa :: "incendios \<Rightarrow> unit guion" where
  \<comment> \<open>lines 183-214\<close>
  "mapa df_filtrado =
     (case dropna [''lat'', ''lng''] df_filtrado of
        Inl e \<Rightarrow> ([], Inl e)
      | Inr df_mapa \<Rightarrow>
          if \<not> empty df_mapa then
            (let n = length (filas df_mapa);
                 avisos = (if n > 2000 then [st_warning (Hay_puntos n)] else []);
                 df_mapa = (if n > 2000 then df_mapa\<lparr>filas := take 1000 (filas df_mapa)\<rparr> else df_mapa)
             in case marcadores (columnas df_mapa) (filas df_mapa) of
                  Inl e \<Rightarrow> (avisos, Inl e)
                | Inr ms \<Rightarrow> (avisos @ [st_folium ms], Inr ()))
          else ([st_info No_hay_coordenadas], Inr ()))"

text \<open>
  A run of the script ends stopped by \<^verbatim>\<open>st.stop()\<close>, or with an exception that nothing
  handles, or it reaches the two charts of lines 218-238, which show nothing that the
  properties below are about and are left out, as are the titles, the dividers, the centre
  of the map and the popups of the markers.
\<close>

datatype fin = Detenido | Fallo excepcion | Graficos

definition app :: "pandas \<Rightarrow> entorno \<Rightarrow> seleccion \<Rightarrow> elemento list \<times> fin" where
  \<comment> \<open>lines 128-214\<close>
  "app pd env sel =
     (case cargar_datos pd env of
        (avisos, df) \<Rightarrow>
          if empty df then (avisos @ [st_info Esperando_datos], Detenido)
          else (case luego (barra_lateral pd df sel) (\<lambda>df_filtrado.
                       luego (metricas df_filtrado) (\<lambda>u. mapa df_filtrado)) of
                  (es, Inl e) \<Rightarrow> (avisos @ es, Fallo e)
                | (es, Inr u) \<Rightarrow> (avisos @ es, Graficos)))"

section \<open>The notions the properties are stated with\<close>

subsection \<open>The year filter as the specification words it\<close>

text \<open>
  The specification speaks of the records whose year lies in the range, and of a
  lower-bound and an upper-bound filter applied one after the other. The next three
  definitions follow its words; \<open>filtro_anios\<close> above follows line 142.
\<close>

definition en_rango :: "int \<Rightarrow> int \<Rightarrow> fila \<Rightarrow> bool" where
  "en_rango y1 y2 r = (case year (fecha r) of None \<Rightarrow> False | Some y \<Rightarrow> y1 \<le> y \<and> y \<le> y2)"

definition filtro_desde :: "int \<Rightarrow> incendios \<Rightarrow> incendios" where
  "filtro_desde y1 df = df\<lparr>filas := filter (\<lambda>r. year_ge (fecha r) y1) (filas df)\<rparr>"

definition filtro_hasta :: "int \<Rightarrow> incendios \<Rightarrow> incendios" where
  "filtro_hasta y2 df = df\<lparr>filas := filter (\<lambda>r. year_le (fecha r) y2) (filas df)\<rparr>"

subsection \<open>Years, coordinates and codes of the records\<close>

text \<open>The years of a table, \<^verbatim>\<open>df.index.year\<close> without its missing entries (line 140).\<close>

definition anios_de :: "incendios \<Rightarrow> int list" where
  "anios_de df = List.map_filter (\<lambda>r. year (fecha r)) (filas df)"

text \<open>The records of a table that have both coordinates (line 183).\<close>

definition con_coordenadas :: "incendios \<Rightarrow> fila list" where
  "con_coordenadas df = filter (\<lambda>r. celda r ''lat'' \<noteq> NaN \<and> celda r ''lng'' \<noteq> NaN) (filas df)"

text \<open>
  The code of row \<open>i\<close> in a code column after the numeric coercion of lines 78, 88 and
  107, and the text that \<^verbatim>\<open>astype(str)\<close> gives for it in that column.
\<close>

definition codigo :: "pandas \<Rightarrow> string \<Rightarrow> incendios \<Rightarrow> nat \<Rightarrow> valor" where
  "codigo pd c df i = coerce pd (celda (filas df ! i) c)"

definition codigo_str :: "pandas \<Rightarrow> string \<Rightarrow> incendios \<Rightarrow> nat \<Rightarrow> string" where
  "codigo_str pd c df i = str_valor (str_num pd (to_numeric pd (columna c df))) (codigo pd c df i)"

subsection \<open>The cascade of the selectors as the specification words it\<close>

text \<open>
  A record passes a selector when the sentinel is chosen or its cell is the chosen
  name. The records of the chosen year range and region, those that also have the
  chosen province, and the names that a column of a table holds, as texts.
\<close>

definition pasa :: "string \<Rightarrow> string \<Rightarrow> string \<Rightarrow> fila \<Rightarrow> bool" where
  "pasa todas col sel r = (sel = todas \<or> celda r col = Texto sel)"

definition tras_region :: "seleccion \<Rightarrow> incendios \<Rightarrow> incendios" where
  "tras_region sel df =
     df\<lparr>filas := filter (\<lambda>r. en_rango (min_year sel) (max_year sel) r
                           \<and> pasa ''Todas'' ''nombre_comunidad'' (comunidad_sel sel) r) (filas df)\<rparr>"

definition tras_provincia :: "seleccion \<Rightarrow> incendios \<Rightarrow> incendios" where
  "tras_provincia sel df =
     df\<lparr>filas := filter (\<lambda>r. en_rango (min_year sel) (max_year sel) r
                           \<and> pasa ''Todas'' ''nombre_comunidad'' (comunidad_sel sel) r
                           \<and> pasa ''Todas'' ''nombre_provincia'' (provincia_sel sel) r) (filas df)\<rparr>"

definition nombres_en :: "pandas \<Rightarrow> string \<Rightarrow> incendios \<Rightarrow> string set" where
  "nombres_en pd col df = set (astype_str pd (columna col df))"

section \<open>Sample inputs\<close>

text \<open>
  Small tables, choices and file outcomes on which the properties below are run, and a
  stand-in for the two library functions that knows the numbers 3 and 7. As pandas
  does for codes written as integers in the file, it prints a column of whole numbers
  without a decimal point (\<^verbatim>\<open>'7'\<close>, type \<^verbatim>\<open>int64\<close>) and a column that holds a missing value
  with one (\<^verbatim>\<open>'7.0'\<close>, type \<^verbatim>\<open>float64\<close>).
\<close>

definition entera :: "valor list \<Rightarrow> bool" where
  "entera col = list_all (\<lambda>v. case v of Num x \<Rightarrow> real_of_int \<lfloor>x\<rfloor> = x | NaN \<Rightarrow> False | Texto t \<Rightarrow> False) col"

definition pd0 :: pandas where
  "pd0 = \<lparr>parse_num = (\<lambda>s. if s = ''3'' then Some 3 else if s = ''7'' then Some 7 else None),
           str_num = (\<lambda>col x.
             if entera col then (if x = 3 then ''3'' else if x = 7 then ''7'' else ''0'')
             else (if x = 3 then ''3.0'' else if x = 7 then ''7.0'' else ''0.0''))\<rparr>"

definition punto_sin_superficie :: fila where
  "punto_sin_superficie =
     \<lparr>fecha = Fecha 2020 7 14,
      celda = (\<lambda>c. NaN)(''lat'' := Num 40, ''lng'' := Num (- 3))\<rparr>"

definition tabla_regiones :: tabla where
  "tabla_regiones =
     \<lparr>columnas = [''idcomunidad'', ''comunidad''],
      filas = [(\<lambda>c. NaN)(''idcomunidad'' := Num 1, ''comunidad'' := Texto ''Andalucia''),
               (\<lambda>c. NaN)(''idcomunidad'' := Num 2)]\<rparr>"

definition tabla_idcausa :: incendios where
  "tabla_idcausa =
     \<lparr>columnas = [''idcausa'', ''causa_desc''],
      filas = [\<lparr>fecha = Fecha 2019 8 1, celda = (\<lambda>c. NaN)(''idcausa'' := Texto ''3'', ''causa_desc'' := Num 200)\<rparr>,
               \<lparr>fecha = Fecha 2020 8 2, celda = (\<lambda>c. NaN)(''idcausa'' := Texto ''rayo'', ''causa_desc'' := Num 300)\<rparr>]\<rparr>"

definition tabla_sin_causa :: incendios where
  "tabla_sin_causa =
     \<lparr>columnas = [''municipio''],
      filas = [\<lparr>fecha = Fecha 2019 8 1, celda = (\<lambda>c. NaN)(''municipio'' := Texto ''Lugo'')\<rparr>]\<rparr>"

definition incendio :: "int \<Rightarrow> string \<Rightarrow> string \<Rightarrow> string \<Rightarrow> real \<Rightarrow> fila" where
  "incendio y com prov mun ha =
     \<lparr>fecha = Fecha y 8 1,
      celda = (\<lambda>c. NaN)(''nombre_comunidad'' := Texto com, ''nombre_provincia'' := Texto prov,
                ''municipio'' := Texto mun, ''superficie'' := Num ha)\<rparr>"

definition tabla_tres :: incendios where
  "tabla_tres =
     \<lparr>columnas = [''nombre_comunidad'', ''nombre_provincia'', ''municipio'', ''superficie''],
      filas = [incendio 2019 ''Galicia'' ''Lugo'' ''Viveiro'' 5,
               incendio 2020 ''Galicia'' ''Ourense'' ''Verin'' 20,
               incendio 2020 ''Asturias'' ''Asturias'' ''Llanes'' 60]\<rparr>"

definition todo_2020 :: seleccion where
  "todo_2020 = \<lparr>min_year = 2020, max_year = 2020, comunidad_sel = ''Todas'',
                provincia_sel = ''Todas'', municipio_sel = ''Todos''\<rparr>"

definition punto :: fila where
  "punto = \<lparr>fecha = Fecha 2020 7 14,
            celda = (\<lambda>c. NaN)(''lat'' := Num 40, ''lng'' := Num (- 3), ''superficie'' := Num 12)\<rparr>"

definition muchos_puntos :: incendios where
  "muchos_puntos = \<lparr>columnas = [''lat'', ''lng'', ''superficie''], filas = replicate 2001 punto\<rparr>"

definition sin_archivos :: entorno where
  "sin_archivos =
     \<lparr>excel = Falla (FileNotFoundError ''master_data.xlsx''),
      archivo_zip = Falla (FileNotFoundError ''fires-all.csv.zip'')\<rparr>"

definition tabla_codigos :: incendios where
  "tabla_codigos =
     \<lparr>columnas = [''idcomunidad'', ''idprovincia'', ''causa''],
      filas = [\<lparr>fecha = Fecha 2019 8 1,
                celda = (\<lambda>c. NaN)(''idcomunidad'' := Texto ''7'', ''idprovincia'' := Num 7, ''causa'' := Num 7)\<rparr>,
               \<lparr>fecha = Fecha 2020 8 2,
                celda = (\<lambda>c. NaN)(''idcomunidad'' := Texto ''Galicia'', ''idprovincia'' := Num 3, ''causa'' := Num 3)\<rparr>]\<rparr>"

definition solo_tres :: maestros where
  "solo_tres = [''comunidades'' \<mapsto> [Num 3 \<mapsto> Texto ''Galicia''],
                ''provincias'' \<mapsto> [Num 3 \<mapsto> Texto ''Lugo''],
                ''causas'' \<mapsto> [Num 3 \<mapsto> Texto ''Rayo'']]"

definition sin_maestros :: entorno where
  "sin_maestros =
     \<lparr>excel = Falla (FileNotFoundError ''master_data.xlsx''),
      archivo_zip = Exito [(''__MACOSX/._fires-all.csv'', Falla (Exception ''resource fork'')),
                           (''fires-all.csv'', Exito tabla_codigos)]\<rparr>"

definition galicia_lugo :: seleccion where
  "galicia_lugo = \<lparr>min_year = 2019, max_year = 2020, comunidad_sel = ''Galicia'',
                   provincia_sel = ''Lugo'', municipio_sel = ''Todos''\<rparr>"

section \<open>Facts about columns and the steps of the loader\<close>

lemma length_to_numeric [simp]: "length (to_numeric pd col) = length col"
  by (simp add: to_numeric_def)

lemma length_astype_str [simp]: "length (astype_str pd col) = length col"
  by (simp add: astype_str_def)

lemma length_map_dict [simp]: "length (map_dict d col) = length col"
  by (simp add: map_dict_def)

lemma length_fillna [simp]: "length (fillna col otra) = min (length col) (length otra)"
  by (simp add: fillna_def)

lemma length_columna [simp]: "length (columna c df) = length (filas df)"
  by (simp add: columna_def)

lemma length_filas_asignar [simp]:
  "length (filas (asignar c vs df)) = min (length (filas df)) (length vs)"
  by (simp add: asignar_def)

lemma set_columnas_asignar [simp]:
  "set (columnas (asignar c vs df)) = insert c (set (columnas df))"
  by (auto simp: asignar_def)

lemma columna_asignar_same:
  "length vs = length (filas df) \<Longrightarrow> columna c (asignar c vs df) = vs"
  by (simp add: columna_def asignar_def map_snd_zip o_def case_prod_unfold)

lemma map_zip_izq:
  "length xs = length ys \<Longrightarrow> map (\<lambda>(x, y). g x) (zip xs ys) = map g xs"
  by (induction xs ys rule: list_induct2) simp_all

lemma columna_asignar_other:
  assumes "c' \<noteq> c" and "length vs = length (filas df)"
  shows "columna c' (asignar c vs df) = columna c' df"
proof -
  have "columna c' (asignar c vs df) = map (\<lambda>(r, v). celda r c') (zip (filas df) vs)"
    using assms(1) by (simp add: columna_def asignar_def o_def case_prod_unfold)
  also have "\<dots> = map (\<lambda>r. celda r c') (filas df)"
    using assms(2) by (simp add: map_zip_izq)
  finally show ?thesis by (simp add: columna_def)
qed

lemma fechas_asignar:
  assumes "length vs = length (filas df)"
  shows "map fecha (filas (asignar c vs df)) = map fecha (filas df)"
proof -
  have "map fecha (filas (asignar c vs df)) = map (\<lambda>(r, v). fecha r) (zip (filas df) vs)"
    by (simp add: asignar_def o_def case_prod_unfold)
  also have "\<dots> = map fecha (filas df)"
    using assms by (simp add: map_zip_izq)
  finally show ?thesis .
qed

lemma asignar_escalar_simps [simp]:
  "length (filas (asignar_escalar c v df)) = length (filas df)"
  "set (columnas (asignar_escalar c v df)) = insert c (set (columnas df))"
  "columna c (asignar_escalar c v df) = replicate (length (filas df)) v"
  "c' \<noteq> c \<Longrightarrow> columna c' (asignar_escalar c v df) = columna c' df"
  "map fecha (filas (asignar_escalar c v df)) = map fecha (filas df)"
  by (simp_all add: asignar_escalar_def columna_asignar_same columna_asignar_other fechas_asignar)

lemmas asignar_simps = columna_asignar_same columna_asignar_other fechas_asignar

lemma nombres_length [simp]:
  "length (filas (nombres pd a k b dic df)) = length (filas df)"
  by (simp add: nombres_def Let_def split: option.split)

lemma nombres_fechas:
  "map fecha (filas (nombres pd a k b dic df)) = map fecha (filas df)"
  by (simp add: nombres_def Let_def fechas_asignar split: option.split)

lemma nombres_columnas:
  "set (columnas (nombres pd a k b dic df)) =
     (if a \<in> set (columnas df) \<and> dic k = None then set (columnas df)
      else insert b (set (columnas df)))"
  by (auto simp: nombres_def Let_def split: option.split)

lemma nombres_columna_other:
  "c \<noteq> a \<Longrightarrow> c \<noteq> b \<Longrightarrow> columna c (nombres pd a k b dic df) = columna c df"
  by (simp add: nombres_def Let_def asignar_simps split: option.split)

lemma nombres_columna_id:
  "a \<in> set (columnas df) \<Longrightarrow> a \<noteq> b \<Longrightarrow>
   columna a (nombres pd a k b dic df) = to_numeric pd (columna a df)"
  by (simp add: nombres_def Let_def asignar_simps split: option.split)

lemma nombres_columna_Some:
  "a \<in> set (columnas df) \<Longrightarrow> a \<noteq> b \<Longrightarrow> dic k = Some d \<Longrightarrow>
   columna b (nombres pd a k b dic df) =
     fillna (map_dict d (to_numeric pd (columna a df)))
       (map Texto (astype_str pd (to_numeric pd (columna a df))))"
  by (simp add: nombres_def Let_def asignar_simps)

lemma nombres_None:
  "a \<in> set (columnas df) \<Longrightarrow> dic k = None \<Longrightarrow>
   nombres pd a k b dic df = asignar a (to_numeric pd (columna a df)) df"
  by (simp add: nombres_def Let_def)

lemma nombres_columna_ausente:
  "a \<notin> set (columnas df) \<Longrightarrow>
   columna b (nombres pd a k b dic df) = replicate (length (filas df)) (Texto ''Desconocido'')"
  by (simp add: nombres_def)

lemma causas_length [simp]:
  "length (filas (causas pd dic df)) = length (filas df)"
  by (simp add: causas_def Let_def split: option.split)

lemma causas_fechas:
  "map fecha (filas (causas pd dic df)) = map fecha (filas df)"
  by (simp add: causas_def Let_def fechas_asignar split: option.split)

lemma causas_columnas:
  "set (columnas (causas pd dic df)) = insert ''causa_texto'' (set (columnas df))"
  by (auto simp: causas_def Let_def split: option.split)

lemma col_causa_id_cases:
  "col_causa_id cols = ''causa'' \<or> col_causa_id cols = ''idcausa'' \<or> col_causa_id cols = ''causa_desc''"
  by (simp add: col_causa_id_def Let_def)

lemma causas_columna_other:
  "c \<noteq> ''causa'' \<Longrightarrow> c \<noteq> ''idcausa'' \<Longrightarrow> c \<noteq> ''causa_desc'' \<Longrightarrow> c \<noteq> ''causa_texto'' \<Longrightarrow>
   columna c (causas pd dic df) = columna c df"
  using col_causa_id_cases [of "columnas df"]
  by (auto simp: causas_def Let_def asignar_simps split: option.split)

lemma col_causa_id_no_texto: "col_causa_id cols \<noteq> ''causa_texto''"
  by (simp add: col_causa_id_def Let_def)

lemma causas_columna_Some:
  "col_causa_id (columnas df) \<in> set (columnas df) \<Longrightarrow> dic ''causas'' = Some d \<Longrightarrow>
   columna ''causa_texto'' (causas pd dic df) =
     fillna (map_dict d (to_numeric pd (columna (col_causa_id (columnas df)) df)))
       (map (\<lambda>s. Texto (''Causa '' @ s))
          (astype_str pd (to_numeric pd (columna (col_causa_id (columnas df)) df))))"
  using col_causa_id_no_texto [of "columnas df"]
  by (simp add: causas_def Let_def asignar_simps)

lemma causas_columna_None:
  "col_causa_id (columnas df) \<in> set (columnas df) \<Longrightarrow> dic ''causas'' = None \<Longrightarrow>
   columna ''causa_texto'' (causas pd dic df) =
     to_numeric pd (columna (col_causa_id (columnas df)) df)"
  using col_causa_id_no_texto [of "columnas df"]
  by (simp add: causas_def Let_def asignar_simps)

lemma causas_columna_id:
  "col_causa_id (columnas df) \<in> set (columnas df) \<Longrightarrow>
   columna (col_causa_id (columnas df)) (causas pd dic df) =
     to_numeric pd (columna (col_causa_id (columnas df)) df)"
  using col_causa_id_no_texto [of "columnas df"]
  by (simp add: causas_def Let_def asignar_simps split: option.split)

lemma causas_columna_ausente:
  "col_causa_id (columnas df) \<notin> set (columnas df) \<Longrightarrow>
   columna ''causa_texto'' (causas pd dic df) =
     replicate (length (filas df)) (Texto ''No especificado'')"
  by (simp add: causas_def Let_def)

lemma foldl_numericos:
  "length (filas (foldl (\<lambda>df col. if col \<in> set (columnas df)
                       then asignar col (to_numeric pd (columna col df)) df else df) df cs)) = length (filas df)
   \<and> set (columnas (foldl (\<lambda>df col. if col \<in> set (columnas df)
                       then asignar col (to_numeric pd (columna col df)) df else df) df cs)) = set (columnas df)
   \<and> map fecha (filas (foldl (\<lambda>df col. if col \<in> set (columnas df)
                       then asignar col (to_numeric pd (columna col df)) df else df) df cs)) = map fecha (filas df)
   \<and> (c \<notin> set cs \<longrightarrow> columna c (foldl (\<lambda>df col. if col \<in> set (columnas df)
                       then asignar col (to_numeric pd (columna col df)) df else df) df cs) = columna c df)"
proof (induction cs arbitrary: df)
  case Nil
  then show ?case by simp
next
  case (Cons a cs)
  show ?case
  proof (cases "a \<in> set (columnas df)")
    case True
    then show ?thesis
      using Cons.IH [of "asignar a (to_numeric pd (columna a df)) df"]
      by (auto simp: asignar_simps)
  next
    case False
    then show ?thesis using Cons.IH [of df] by simp
  qed
qed

lemma numericos_length [simp]: "length (filas (numericos pd df)) = length (filas df)"
  using foldl_numericos [of pd df cols_num] by (simp add: numericos_def)

lemma numericos_columnas [simp]: "set (columnas (numericos pd df)) = set (columnas df)"
  using foldl_numericos [of pd df cols_num] by (simp add: numericos_def)

lemma numericos_fechas: "map fecha (filas (numericos pd df)) = map fecha (filas df)"
  using foldl_numericos [of pd df cols_num] by (simp add: numericos_def)

lemma numericos_columna_other:
  "c \<notin> set cols_num \<Longrightarrow> columna c (numericos pd df) = columna c df"
  using foldl_numericos [of pd df cols_num c] by (simp add: numericos_def)

lemma col_causa_id_cong:
  "(''causa'' \<in> set a) = (''causa'' \<in> set b) \<Longrightarrow>
   (''idcausa'' \<in> set a) = (''idcausa'' \<in> set b) \<Longrightarrow>
   (''causa_desc'' \<in> set a) = (''causa_desc'' \<in> set b) \<Longrightarrow>
   col_causa_id a = col_causa_id b"
  by (simp add: col_causa_id_def Let_def)

lemma col_causa_id_mem_cong:
  "(''causa'' \<in> set a) = (''causa'' \<in> set b) \<Longrightarrow>
   (''idcausa'' \<in> set a) = (''idcausa'' \<in> set b) \<Longrightarrow>
   (''causa_desc'' \<in> set a) = (''causa_desc'' \<in> set b) \<Longrightarrow>
   (col_causa_id a \<in> set a) = (col_causa_id b \<in> set b)"
  by (simp add: col_causa_id_def Let_def)

lemma traducir_con_nombres: "traducir pd dic df = numericos pd (causas pd dic (con_nombres pd dic df))"
  by (simp add: traducir_def)

lemma con_nombres_col_causa:
  "col_causa_id (columnas (con_nombres pd dic df)) = col_causa_id (columnas df)"
  "(col_causa_id (columnas (con_nombres pd dic df)) \<in> set (columnas (con_nombres pd dic df)))
     = (col_causa_id (columnas df) \<in> set (columnas df))"
  by (rule col_causa_id_cong col_causa_id_mem_cong; simp add: con_nombres_def nombres_columnas)+

lemma con_nombres_columna_causa:
  "columna (col_causa_id cols) (con_nombres pd dic df) = columna (col_causa_id cols) df"
  using col_causa_id_cases [of cols]
  by (auto simp: con_nombres_def nombres_columna_other)

lemma traducir_length [simp]: "length (filas (traducir pd dic df)) = length (filas df)"
  by (simp add: traducir_def con_nombres_def)

lemma traducir_fechas: "map fecha (filas (traducir pd dic df)) = map fecha (filas df)"
  by (simp add: traducir_def con_nombres_def numericos_fechas causas_fechas nombres_fechas)

lemma traducir_columna_comunidad:
  "columna ''nombre_comunidad'' (traducir pd dic df) =
   columna ''nombre_comunidad'' (nombres pd ''idcomunidad'' ''comunidades'' ''nombre_comunidad'' dic df)"
  by (simp add: traducir_def con_nombres_def numericos_columna_other cols_num_def
      causas_columna_other nombres_columna_other)

lemma traducir_columna_provincia:
  "columna ''nombre_provincia'' (traducir pd dic df) =
   columna ''nombre_provincia'' (nombres pd ''idprovincia'' ''provincias'' ''nombre_provincia'' dic
       (nombres pd ''idcomunidad'' ''comunidades'' ''nombre_comunidad'' dic df))"
  by (simp add: traducir_def con_nombres_def numericos_columna_other cols_num_def
      causas_columna_other)

lemma traducir_columna_causa_texto:
  "columna ''causa_texto'' (traducir pd dic df) =
   columna ''causa_texto'' (causas pd dic (con_nombres pd dic df))"
  by (simp add: traducir_con_nombres numericos_columna_other cols_num_def)

lemma traducir_columna_causa_id:
  assumes "col_causa_id (columnas df) \<in> set (columnas df)"
  shows "columna (col_causa_id (columnas df)) (traducir pd dic df) =
         to_numeric pd (columna (col_causa_id (columnas df)) df)"
proof -
  let ?df2 = "con_nombres pd dic df"
  let ?c = "col_causa_id (columnas df)"
  have c2: "col_causa_id (columnas ?df2) = ?c"
    by (rule con_nombres_col_causa)
  have "col_causa_id (columnas ?df2) \<in> set (columnas ?df2)"
    using assms by (simp only: con_nombres_col_causa(2))
  then have "columna ?c (causas pd dic ?df2) = to_numeric pd (columna ?c ?df2)"
    using causas_columna_id [of ?df2 pd dic] by (simp only: c2)
  moreover have "?c \<notin> set cols_num"
    using col_causa_id_cases [of "columnas df"] by (auto simp: cols_num_def)
  ultimately show ?thesis
    by (simp add: traducir_con_nombres numericos_columna_other con_nombres_columna_causa)
qed

lemma traducir_columnas:
  "set (columnas (traducir pd dic df)) =
     insert ''causa_texto''
       ((if ''idprovincia'' \<in> set (columnas df) \<and> dic ''provincias'' = None then {} else {''nombre_provincia''})
        \<union> (if ''idcomunidad'' \<in> set (columnas df) \<and> dic ''comunidades'' = None then {} else {''nombre_comunidad''})
        \<union> set (columnas df))"
  by (auto simp: traducir_def con_nombres_def causas_columnas nombres_columnas)

lemma celda_columna:
  "i < length (filas df) \<Longrightarrow> celda (filas df ! i) c = columna c df ! i"
  by (simp add: columna_def)

lemma dom_dict_zip: "dom (dict_zip ks vs) \<subseteq> set ks"
proof -
  have "dom (foldl (\<lambda>m (k, v). m(k \<mapsto> v)) m0 (zip ks vs)) \<subseteq> dom m0 \<union> set ks" for m0 :: diccionario
  proof (induction ks arbitrary: vs m0)
    case Nil
    then show ?case by simp
  next
    case (Cons k ks)
    show ?case
    proof (cases vs)
      case Nil
      then show ?thesis by auto
    next
      case (Cons v vs')
      then show ?thesis using Cons.IH [of "m0(k \<mapsto> v)" vs'] by auto
    qed
  qed
  from this [of Map.empty] show ?thesis by (simp add: dict_zip_def)
qed

lemma dict_de_NaN: "dict_de a b t NaN = None"
proof -
  have "NaN \<notin> set (map (\<lambda>r. r a) (dropna2 a b (filas t)))"
    by (auto simp: dropna2_def)
  with dom_dict_zip show ?thesis
    unfolding dict_de_def Let_def by blast
qed

lemma cargar_maestros_NaN:
  assumes "cargar_maestros x = Inr (ws, dic)" and "dic k = Some d"
  shows "d NaN = None"
proof (cases x)
  case (Falla e)
  with assms show ?thesis
    by (cases e) (auto simp: cargar_maestros_def leer_maestros_def)
next
  case (Exito t)
  with assms show ?thesis
    by (auto simp: cargar_maestros_def leer_maestros_def Let_def dict_de_NaN split: if_splits)
qed

lemma seleccionar_map: "seleccionar (map P xs) xs = filter P xs"
  by (induction xs) (simp_all add: seleccionar_def)

lemma seleccionar_and:
  "seleccionar (map (\<lambda>(a, b). a \<and> b) (zip (map P xs) (map Q xs))) xs = filter (\<lambda>x. P x \<and> Q x) xs"
  by (induction xs) (simp_all add: seleccionar_def)

lemma filas_filtro_anios:
  "filas (filtro_anios y1 y2 df) = filter (en_rango y1 y2) (filas df)"
proof -
  have "(\<lambda>r. year_ge (fecha r) y1 \<and> year_le (fecha r) y2) = en_rango y1 y2"
    by (auto simp: en_rango_def year_ge_def year_le_def fun_eq_iff split: option.split)
  then show ?thesis
    by (simp add: filtro_anios_def seleccionar_and)
qed

lemma marcadores_length: "marcadores cols rows = Inr ms \<Longrightarrow> length ms = length rows"
  by (induction rows arbitrary: ms) (auto split: if_splits sum.splits)

lemma marcadores_nth:
  "marcadores cols rows = Inr ms \<Longrightarrow> i < length rows \<Longrightarrow>
   \<exists>c. color (celda (rows ! i) ''superficie'') = Inr c
      \<and> ms ! i = CircleMarker (celda (rows ! i) ''lat'') (celda (rows ! i) ''lng'') c"
proof (induction rows arbitrary: ms i)
  case Nil
  then show ?case by simp
next
  case (Cons row rows)
  then show ?case
    by (cases i) (auto split: if_splits sum.splits)
qed

lemma dict_tabla_regiones:
  "dict_de ''idcomunidad'' ''comunidad'' tabla_regiones = [Num 1 \<mapsto> Texto ''Andalucia'']"
  by (simp add: dict_de_def dropna2_def dict_zip_def tabla_regiones_def)

lemma luego_Inr: "luego (es, Inr x) f = (case f x of (es', r) \<Rightarrow> (es @ es', r))"
  by (simp add: luego_def)

lemma caja_todas:
  "caja pd etiqueta todas col todas df =
     (case opciones pd todas col df of Inl e \<Rightarrow> ([], Inl e) | Inr lista \<Rightarrow> ([st_selectbox etiqueta lista], Inr df))"
  by (simp add: caja_def filtrar_def split: sum.split)

lemma filas_tabla_tres_2020:
  "filtro_anios 2020 2020 tabla_tres =
     \<lparr>columnas = [''nombre_comunidad'', ''nombre_provincia'', ''municipio'', ''superficie''],
      filas = [incendio 2020 ''Galicia'' ''Ourense'' ''Verin'' 20,
               incendio 2020 ''Asturias'' ''Asturias'' ''Llanes'' 60]\<rparr>"
  by (simp add: filtro_anios_def seleccionar_def tabla_tres_def incendio_def year_ge_def year_le_def)

lemma set_anios_de:
  "set (anios_de df) = {y. \<exists>r \<in> set (filas df). year (fecha r) = Some y}"
proof -
  have "set (List.map_filter f xs) = {y. \<exists>x \<in> set xs. f x = Some y}"
    for f :: "fila \<Rightarrow> int option" and xs
    by (induction xs) (auto simp: map_filter_simps split: option.splits)
  then show ?thesis by (simp add: anios_de_def)
qed

lemma dropna_lat_lng:
  "dropna [''lat'', ''lng''] df =
     (if ''lat'' \<notin> set (columnas df) then Inl (KeyError ''lat'')
      else if ''lng'' \<notin> set (columnas df) then Inl (KeyError ''lng'')
      else Inr (df\<lparr>filas := con_coordenadas df\<rparr>))"
  by (simp add: dropna_def con_coordenadas_def)

lemma mapa_casos:
  "mapa df =
     (if ''lat'' \<notin> set (columnas df) then ([], Inl (KeyError ''lat''))
      else if ''lng'' \<notin> set (columnas df) then ([], Inl (KeyError ''lng''))
      else if con_coordenadas df = [] then ([st_info No_hay_coordenadas], Inr ())
      else if length (con_coordenadas df) > 2000 then
        (case marcadores (columnas df) (take 1000 (con_coordenadas df)) of
           Inl e \<Rightarrow> ([st_warning (Hay_puntos (length (con_coordenadas df)))], Inl e)
         | Inr ms \<Rightarrow> ([st_warning (Hay_puntos (length (con_coordenadas df))), st_folium ms], Inr ()))
      else
        (case marcadores (columnas df) (con_coordenadas df) of
           Inl e \<Rightarrow> ([], Inl e)
         | Inr ms \<Rightarrow> ([st_folium ms], Inr ())))"
  by (auto simp: mapa_def dropna_lat_lng empty_def Let_def split: sum.split)

lemma marcadores_replicate:
  "''superficie'' \<in> set cols \<Longrightarrow> color (celda row ''superficie'') = Inr c \<Longrightarrow>
   marcadores cols (replicate n row) = Inr (replicate n (CircleMarker (celda row ''lat'') (celda row ''lng'') c))"
  by (induction n) simp_all

lemma con_coordenadas_muchos: "con_coordenadas muchos_puntos = replicate 2001 punto"
  by (simp add: con_coordenadas_def muchos_puntos_def punto_def filter_replicate)

lemma mapa_muchos_puntos:
  "mapa muchos_puntos =
     ([st_warning (Hay_puntos 2001), st_folium (replicate 1000 (CircleMarker (Num 40) (Num (- 3)) ''orange''))],
      Inr ())"
proof -
  have "marcadores (columnas muchos_puntos) (replicate 1000 punto)
      = Inr (replicate 1000 (CircleMarker (celda punto ''lat'') (celda punto ''lng'') ''orange''))"
    by (rule marcadores_replicate) (simp_all add: muchos_puntos_def punto_def color_def)
  then show ?thesis
    by (simp add: mapa_casos con_coordenadas_muchos) (simp add: muchos_puntos_def punto_def)
qed

lemma empty_DataFrame: "empty DataFrame"
  by (simp add: empty_def DataFrame_def)

lemma cargar_maestros_devuelve: "\<exists>avisos maestros. cargar_maestros x = Inr (avisos, maestros)"
  by (simp add: cargar_maestros_def split: sum.split excepcion.split)

lemma cargar_datos_Inl:
  "leer_datos pd env = (avisos, Inl e) \<Longrightarrow>
   cargar_datos pd env = (avisos @ [st_error (Error_cargando_datos (mensaje e))], DataFrame)"
  by (simp add: cargar_datos_def)

lemma leer_datos_zip_Falla:
  assumes "archivo_zip env = Falla e"
  shows "\<exists>avisos. leer_datos pd env = (avisos, Inl e)"
proof -
  obtain avisos m where "cargar_maestros (excel env) = Inr (avisos, m)"
    using cargar_maestros_devuelve by blast
  with assms show ?thesis by (simp add: leer_datos_def)
qed

lemma leer_datos_csv_Falla:
  assumes "archivo_zip env = Exito z"
    and "filter (\<lambda>(f, csv). endswith f ''.csv'' \<and> \<not> contiene ''__MACOSX'' f) z = (f, Falla e) # otros"
  shows "\<exists>avisos. leer_datos pd env = (avisos, Inl e)"
proof -
  obtain avisos m where "cargar_maestros (excel env) = Inr (avisos, m)"
    using cargar_maestros_devuelve by blast
  with assms show ?thesis by (simp add: leer_datos_def)
qed

lemma app_empty:
  "cargar_datos pd env = (avisos, df) \<Longrightarrow> empty df \<Longrightarrow>
   app pd env sel = (avisos @ [st_info Esperando_datos], Detenido)"
  by (simp add: app_def)

lemma leer_datos_sin_archivos:
  "leer_datos pd0 sin_archivos =
     ([st_warning (No_se_encuentra ''master_data.xlsx'')], Inl (FileNotFoundError ''fires-all.csv.zip''))"
  by (simp add: leer_datos_def sin_archivos_def cargar_maestros_def leer_maestros_def archivo_meta_def)

lemma to_numeric_nth:
  "i < length (filas df) \<Longrightarrow> to_numeric pd (columna c df) ! i = codigo pd c df i"
  by (simp add: to_numeric_def columna_def codigo_def)

lemma astype_str_nth:
  "i < length (filas df) \<Longrightarrow>
   astype_str pd (to_numeric pd (columna c df)) ! i = codigo_str pd c df i"
  by (simp add: astype_str_def codigo_str_def to_numeric_nth)

lemma fillna_nth:
  "i < length col \<Longrightarrow> i < length otra \<Longrightarrow>
   fillna col otra ! i = (if col ! i = NaN then otra ! i else col ! i)"
  by (simp add: fillna_def)

lemma map_dict_nth:
  "i < length col \<Longrightarrow> map_dict d col ! i = (case d (col ! i) of Some l \<Rightarrow> l | None \<Rightarrow> NaN)"
  by (simp add: map_dict_def)

lemma etiqueta_nth:
  assumes "i < length (filas df)"
  shows "fillna (map_dict d (to_numeric pd (columna c df)))
           (map g (astype_str pd (to_numeric pd (columna c df)))) ! i =
         (case d (codigo pd c df i) of
            None \<Rightarrow> g (codigo_str pd c df i)
          | Some l \<Rightarrow> if l = NaN then g (codigo_str pd c df i) else l)"
  using assms
  by (simp add: fillna_nth map_dict_nth to_numeric_nth astype_str_nth split: option.split)

lemma traducir_comunidad_Some:
  "''idcomunidad'' \<in> set (columnas df) \<Longrightarrow> dic ''comunidades'' = Some d \<Longrightarrow>
   columna ''nombre_comunidad'' (traducir pd dic df) =
     fillna (map_dict d (to_numeric pd (columna ''idcomunidad'' df)))
       (map Texto (astype_str pd (to_numeric pd (columna ''idcomunidad'' df))))"
  by (simp add: traducir_columna_comunidad nombres_columna_Some)

lemma traducir_comunidad_ausente:
  "''idcomunidad'' \<notin> set (columnas df) \<Longrightarrow>
   columna ''nombre_comunidad'' (traducir pd dic df) = replicate (length (filas df)) (Texto ''Desconocido'')"
  by (simp add: traducir_columna_comunidad nombres_columna_ausente)

lemma traducir_provincia_Some:
  assumes "''idprovincia'' \<in> set (columnas df)" and "dic ''provincias'' = Some d"
  shows "columna ''nombre_provincia'' (traducir pd dic df) =
     fillna (map_dict d (to_numeric pd (columna ''idprovincia'' df)))
       (map Texto (astype_str pd (to_numeric pd (columna ''idprovincia'' df))))"
proof -
  let ?df1 = "nombres pd ''idcomunidad'' ''comunidades'' ''nombre_comunidad'' dic df"
  have "''idprovincia'' \<in> set (columnas ?df1)"
    using assms(1) by (simp add: nombres_columnas)
  moreover have "columna ''idprovincia'' ?df1 = columna ''idprovincia'' df"
    by (simp add: nombres_columna_other)
  ultimately show ?thesis
    using assms(2) by (simp add: traducir_columna_provincia nombres_columna_Some)
qed

lemma traducir_provincia_ausente:
  assumes "''idprovincia'' \<notin> set (columnas df)"
  shows "columna ''nombre_provincia'' (traducir pd dic df) = replicate (length (filas df)) (Texto ''Desconocido'')"
proof -
  let ?df1 = "nombres pd ''idcomunidad'' ''comunidades'' ''nombre_comunidad'' dic df"
  have "''idprovincia'' \<notin> set (columnas ?df1)"
    using assms by (simp add: nombres_columnas)
  then show ?thesis
    by (simp add: traducir_columna_provincia nombres_columna_ausente)
qed

lemma traducir_causa_texto:
  assumes "col_causa_id (columnas df) \<in> set (columnas df)"
  shows "columna ''causa_texto'' (traducir pd dic df) =
             (case dic ''causas'' of
                None \<Rightarrow> to_numeric pd (columna (col_causa_id (columnas df)) df)
              | Some d \<Rightarrow>
                  fillna (map_dict d (to_numeric pd (columna (col_causa_id (columnas df)) df)))
                    (map (\<lambda>s. Texto (''Causa '' @ s))
                       (astype_str pd (to_numeric pd (columna (col_causa_id (columnas df)) df)))))"
proof -
  let ?df2 = "con_nombres pd dic df"
  have en: "col_causa_id (columnas ?df2) \<in> set (columnas ?df2)"
    using assms by (simp only: con_nombres_col_causa(2))
  show ?thesis
  proof (cases "dic ''causas''")
    case None
    from en None causas_columna_None [where df="?df2" and dic=dic and pd=pd] show ?thesis
      by (simp add: None traducir_columna_causa_texto con_nombres_col_causa(1)
          con_nombres_columna_causa)
  next
    case (Some d)
    from en Some causas_columna_Some [where df="?df2" and dic=dic and pd=pd and d=d] show ?thesis
      by (simp add: Some traducir_columna_causa_texto con_nombres_col_causa(1)
          con_nombres_columna_causa)
  qed
qed

lemma traducir_causa_ausente:
  assumes "col_causa_id (columnas df) \<notin> set (columnas df)"
  shows "columna ''causa_texto'' (traducir pd dic df)
              = replicate (length (filas df)) (Texto ''No especificado'')"
proof -
  let ?df2 = "con_nombres pd dic df"
  have "col_causa_id (columnas ?df2) \<notin> set (columnas ?df2)"
    using assms by (simp only: con_nombres_col_causa(2) not_False_eq_True)
  from this causas_columna_ausente [where df="?df2" and dic=dic and pd=pd] show ?thesis
    by (simp add: traducir_columna_causa_texto con_nombres_def)
qed

lemma celda_traducir:
  "i < length (filas df) \<Longrightarrow> celda (filas (traducir pd dic df) ! i) c = columna c (traducir pd dic df) ! i"
  by (simp add: celda_columna)

lemma app_sin_columna:
  "cargar_datos pd env = (avisos, df) \<Longrightarrow> \<not> empty df \<Longrightarrow>
   ''nombre_comunidad'' \<notin> set (columnas df) \<Longrightarrow>
   app pd env sel = (avisos, Fallo (KeyError ''nombre_comunidad''))"
  by (simp add: app_def barra_lateral_def luego_def caja_def opciones_def leer_def filtro_anios_def)

lemma codigos_tabla_codigos:
  "codigo pd0 ''idcomunidad'' tabla_codigos 0 = Num 7"
  "codigo pd0 ''idprovincia'' tabla_codigos 0 = Num 7"
  "codigo pd0 ''causa'' tabla_codigos 0 = Num 7"
  "codigo pd0 ''idcomunidad'' tabla_codigos 1 = NaN"
  "codigo_str pd0 ''idcomunidad'' tabla_codigos 0 = ''7.0''"
  "codigo_str pd0 ''idprovincia'' tabla_codigos 0 = ''7''"
  "codigo_str pd0 ''causa'' tabla_codigos 0 = ''7''"
  "col_causa_id (columnas tabla_codigos) = ''causa''"
  "set (columnas tabla_codigos) = {''idcomunidad'', ''idprovincia'', ''causa''}"
  "length (filas tabla_codigos) = 2"
  by (simp_all add: codigo_str_def codigo_def tabla_codigos_def pd0_def col_causa_id_def
      to_numeric_def columna_def entera_def)

lemma cargar_datos_sin_maestros:
  "cargar_datos pd0 sin_maestros =
     ([st_warning (No_se_encuentra ''master_data.xlsx'')], traducir pd0 Map.empty tabla_codigos)"
  by (simp add: cargar_datos_def leer_datos_def sin_maestros_def cargar_maestros_def
      leer_maestros_def archivo_meta_def endswith_def)

lemma solo_tres_simps:
  "solo_tres ''comunidades'' = Some [Num 3 \<mapsto> Texto ''Galicia'']"
  "solo_tres ''provincias'' = Some [Num 3 \<mapsto> Texto ''Lugo'']"
  "solo_tres ''causas'' = Some [Num 3 \<mapsto> Texto ''Rayo'']"
  by (simp_all add: solo_tres_def)

lemma codigos_tabla_idcausa:
  "col_causa_id (columnas tabla_idcausa) = ''idcausa''"
  "set (columnas tabla_idcausa) = {''idcausa'', ''causa_desc''}"
  "length (filas tabla_idcausa) = 2"
  "codigo pd0 ''idcausa'' tabla_idcausa 0 = Num 3"
  by (simp_all add: tabla_idcausa_def col_causa_id_def codigo_def pd0_def)

lemma barra_lateral_galicia_lugo:
  "barra_lateral pd0 tabla_tres galicia_lugo =
     ([st_selectbox Comunidad_Autonoma [''Todas'', ''Asturias'', ''Galicia''],
       st_selectbox Provincia [''Todas'', ''Lugo'', ''Ourense''],
       st_selectbox Municipio [''Todos'', ''Viveiro'']],
      Inr \<lparr>columnas = [''nombre_comunidad'', ''nombre_provincia'', ''municipio'', ''superficie''],
           filas = [incendio 2019 ''Galicia'' ''Lugo'' ''Viveiro'' 5]\<rparr>)"
  by (simp add: barra_lateral_def luego_def caja_def opciones_def leer_def filtrar_def
      filtro_anios_def seleccionar_def year_ge_def year_le_def galicia_lugo_def tabla_tres_def
      incendio_def columna_def astype_str_def)

lemma filtrar_Inr:
  assumes "filtrar todas col sel df = Inr df'"
  shows "df' = df\<lparr>filas := filter (pasa todas col sel) (filas df)\<rparr>"
proof (cases "sel = todas")
  case True
  then have "pasa todas col sel = (\<lambda>r. True)"
    by (simp add: pasa_def fun_eq_iff)
  with True assms show ?thesis by (simp add: filtrar_def)
next
  case False
  then have p: "pasa todas col sel = (\<lambda>r. celda r col = Texto sel)"
    by (simp add: pasa_def fun_eq_iff)
  have "seleccionar (map (\<lambda>v. v = Texto sel) (columna col df)) (filas df)
      = filter (\<lambda>r. celda r col = Texto sel) (filas df)"
    using seleccionar_map [of "\<lambda>r. celda r col = Texto sel" "filas df"]
    by (simp add: columna_def o_def)
  with False assms show ?thesis
    by (auto simp: filtrar_def leer_def p split: if_splits)
qed

lemma caja_Inr:
  assumes "caja pd etiqueta todas col sel df = (es, Inr df')"
  shows "es = [st_selectbox etiqueta (todas # sort (remdups (astype_str pd (columna col df))))]
         \<and> df' = df\<lparr>filas := filter (pasa todas col sel) (filas df)\<rparr>"
proof (cases "col \<in> set (columnas df)")
  case True
  with assms have "filtrar todas col sel df = Inr df'"
    and "es = [st_selectbox etiqueta (todas # sort (remdups (astype_str pd (columna col df))))]"
    by (simp_all add: caja_def opciones_def leer_def)
  with filtrar_Inr show ?thesis by blast
next
  case False
  with assms show ?thesis by (simp add: caja_def opciones_def leer_def)
qed

lemma luego_Inr_elim:
  assumes "luego m f = (es, Inr y)"
  obtains es1 x es2 where "m = (es1, Inr x)" and "f x = (es2, Inr y)" and "es = es1 @ es2"
  using assms by (auto simp: luego_def split: prod.splits sum.splits)

lemma barra_lateral_Inr:
  assumes "barra_lateral pd df sel = (es, Inr df_final)"
  shows "es = [st_selectbox Comunidad_Autonoma
                 (''Todas'' # sort (remdups (astype_str pd (columna ''nombre_comunidad''
                     (filtro_anios (min_year sel) (max_year sel) df))))),
               st_selectbox Provincia
                 (''Todas'' # sort (remdups (astype_str pd (columna ''nombre_provincia'' (tras_region sel df))))),
               st_selectbox Municipio
                 (''Todos'' # sort (remdups (astype_str pd (columna ''municipio'' (tras_provincia sel df)))))]"
proof -
  let ?df0 = "filtro_anios (min_year sel) (max_year sel) df"
  have df0: "?df0 = df\<lparr>filas := filter (en_rango (min_year sel) (max_year sel)) (filas df)\<rparr>"
    using filas_filtro_anios [of "min_year sel" "max_year sel" df] by (simp add: filtro_anios_def)
  from assms have "luego (caja pd Comunidad_Autonoma ''Todas'' ''nombre_comunidad'' (comunidad_sel sel) ?df0)
      (\<lambda>df_filtrado. luego (caja pd Provincia ''Todas'' ''nombre_provincia'' (provincia_sel sel) df_filtrado)
        (\<lambda>df_filtrado. caja pd Municipio ''Todos'' ''municipio'' (municipio_sel sel) df_filtrado))
      = (es, Inr df_final)"
    by (simp add: barra_lateral_def luego_def)
  then obtain es1 df1 es23 where
    c1: "caja pd Comunidad_Autonoma ''Todas'' ''nombre_comunidad'' (comunidad_sel sel) ?df0 = (es1, Inr df1)"
    and r: "luego (caja pd Provincia ''Todas'' ''nombre_provincia'' (provincia_sel sel) df1)
        (\<lambda>df_filtrado. caja pd Municipio ''Todos'' ''municipio'' (municipio_sel sel) df_filtrado)
        = (es23, Inr df_final)"
    and es: "es = es1 @ es23"
    by (rule luego_Inr_elim)
  from r obtain es2 df2 es3 where
    c2: "caja pd Provincia ''Todas'' ''nombre_provincia'' (provincia_sel sel) df1 = (es2, Inr df2)"
    and c3: "caja pd Municipio ''Todos'' ''municipio'' (municipio_sel sel) df2 = (es3, Inr df_final)"
    and es23: "es23 = es2 @ es3"
    by (rule luego_Inr_elim)
  have df1: "df1 = tras_region sel df"
    using caja_Inr [OF c1] by (simp add: df0 tras_region_def)
  have df2: "df2 = tras_provincia sel df"
    using caja_Inr [OF c2] by (simp add: df1 tras_region_def tras_provincia_def conj_ac)
  from caja_Inr [OF c1] caja_Inr [OF c2] caja_Inr [OF c3] show ?thesis
    by (simp add: es es23 df1 df2)
qed

lemma leer_maestros_Falla: "leer_maestros (Falla e) = Inl e"
  by (simp add: leer_maestros_def)

lemma leer_maestros_Exito:
  "\<exists>m. leer_maestros (Exito t) = Inr m
     \<and> m ''comunidades'' =
         (if ''idcomunidad'' \<in> set (columnas t) \<and> ''comunidad'' \<in> set (columnas t)
          then Some (dict_de ''idcomunidad'' ''comunidad'' t) else None)
     \<and> m ''provincias'' =
         (if ''idprovincia'' \<in> set (columnas t) \<and> ''provincia'' \<in> set (columnas t)
          then Some (dict_de ''idprovincia'' ''provincia'' t) else None)
     \<and> m ''causas'' =
         (if ''causa'' \<in> set (columnas t) \<and> ''causa_label'' \<in> set (columnas t)
          then Some (dict_de ''causa'' ''causa_label'' t) else None)
     \<and> dom m \<subseteq> {''comunidades'', ''provincias'', ''causas''}"
  by (simp add: leer_maestros_def Let_def)

section \<open>Properties of the metadata resolver\<close>

text \<open>
  C6. \<^verbatim>\<open>cargar_maestros\<close> always returns to its caller. When the reference file is not
  found it shows the warning of line 47 and returns no dictionary; any other exception of
  the read gives the warning of line 50 with the message of the exception, and no
  dictionary; when the table is read no warning is shown, and each of the three
  dictionaries is there exactly when its own two columns are, whatever the other columns.
\<close>

theorem cargar_maestros_total:
  "(\<exists>avisos maestros. cargar_maestros lectura = Inr (avisos, maestros))
   \<and> cargar_maestros (Falla (FileNotFoundError s)) = Inr ([st_warning (No_se_encuentra ''master_data.xlsx'')], Map.empty)
   \<and> cargar_maestros (Falla (KeyError s)) = Inr ([st_warning (Error_leyendo_metadatos s)], Map.empty)
   \<and> cargar_maestros (Falla (TypeError s)) = Inr ([st_warning (Error_leyendo_metadatos s)], Map.empty)
   \<and> cargar_maestros (Falla (Exception s)) = Inr ([st_warning (Error_leyendo_metadatos s)], Map.empty)
   \<and> (\<exists>m. cargar_maestros (Exito t) = Inr ([], m)
        \<and> m ''comunidades'' =
            (if ''idcomunidad'' \<in> set (columnas t) \<and> ''comunidad'' \<in> set (columnas t)
             then Some (dict_de ''idcomunidad'' ''comunidad'' t) else None)
        \<and> m ''provincias'' =
            (if ''idprovincia'' \<in> set (columnas t) \<and> ''provincia'' \<in> set (columnas t)
             then Some (dict_de ''idprovincia'' ''provincia'' t) else None)
        \<and> m ''causas'' =
            (if ''causa'' \<in> set (columnas t) \<and> ''causa_label'' \<in> set (columnas t)
             then Some (dict_de ''causa'' ''causa_label'' t) else None)
        \<and> dom m \<subseteq> {''comunidades'', ''provincias'', ''causas''})"
proof -
  have total: "\<exists>avisos maestros. cargar_maestros lectura = Inr (avisos, maestros)"
    by (simp add: cargar_maestros_def split: sum.split excepcion.split)
  have fallas:
    "cargar_maestros (Falla (FileNotFoundError s)) = Inr ([st_warning (No_se_encuentra ''master_data.xlsx'')], Map.empty)"
    "cargar_maestros (Falla (KeyError s)) = Inr ([st_warning (Error_leyendo_metadatos s)], Map.empty)"
    "cargar_maestros (Falla (TypeError s)) = Inr ([st_warning (Error_leyendo_metadatos s)], Map.empty)"
    "cargar_maestros (Falla (Exception s)) = Inr ([st_warning (Error_leyendo_metadatos s)], Map.empty)"
    by (simp_all add: cargar_maestros_def leer_maestros_Falla archivo_meta_def)
  obtain m where m: "leer_maestros (Exito t) = Inr m"
    and rest: "m ''comunidades'' =
            (if ''idcomunidad'' \<in> set (columnas t) \<and> ''comunidad'' \<in> set (columnas t)
             then Some (dict_de ''idcomunidad'' ''comunidad'' t) else None)"
       "m ''provincias'' =
            (if ''idprovincia'' \<in> set (columnas t) \<and> ''provincia'' \<in> set (columnas t)
             then Some (dict_de ''idprovincia'' ''provincia'' t) else None)"
       "m ''causas'' =
            (if ''causa'' \<in> set (columnas t) \<and> ''causa_label'' \<in> set (columnas t)
             then Some (dict_de ''causa'' ''causa_label'' t) else None)"
       "dom m \<subseteq> {''comunidades'', ''provincias'', ''causas''}"
    using leer_maestros_Exito [of t] by blast
  have "cargar_maestros (Exito t) = Inr ([], m)"
    by (simp add: cargar_maestros_def m)
  with rest total fallas show ?thesis by blast
qed

text \<open>
  A reference table with the two region columns only, one row of which lacks its name:
  the region dictionary holds the complete row, the other two dictionaries are absent.
\<close>

theorem cargar_maestros_total_witness:
  "\<exists>m. cargar_maestros (Exito tabla_regiones) = Inr ([], m)
     \<and> m ''comunidades'' = Some [Num 1 \<mapsto> Texto ''Andalucia'']
     \<and> m ''provincias'' = None \<and> m ''causas'' = None"
proof -
  have cols: "columnas tabla_regiones = [''idcomunidad'', ''comunidad'']"
    by (simp add: tabla_regiones_def)
  from cargar_maestros_total [of "Exito tabla_regiones" "''x''" tabla_regiones]
  obtain m where "cargar_maestros (Exito tabla_regiones) = Inr ([], m)"
    and "m ''comunidades'' =
            (if ''idcomunidad'' \<in> set (columnas tabla_regiones) \<and> ''comunidad'' \<in> set (columnas tabla_regiones)
             then Some (dict_de ''idcomunidad'' ''comunidad'' tabla_regiones) else None)"
    and "m ''provincias'' =
            (if ''idprovincia'' \<in> set (columnas tabla_regiones) \<and> ''provincia'' \<in> set (columnas tabla_regiones)
             then Some (dict_de ''idprovincia'' ''provincia'' tabla_regiones) else None)"
    and "m ''causas'' =
            (if ''causa'' \<in> set (columnas tabla_regiones) \<and> ''causa_label'' \<in> set (columnas tabla_regiones)
             then Some (dict_de ''causa'' ''causa_label'' tabla_regiones) else None)"
    by blast
  then show ?thesis
    by (simp add: cols dict_tabla_regiones)
qed

section \<open>Properties of the loader\<close>

text \<open>
  C2. Every enriched record is to have its three labels, with a fallback for each code
  that cannot be resolved; for a region or province dictionary that is missing
  altogether the label is to be a placeholder. The loader misses this case. With the
  reference file not found (the warning of line 47 announces that codes will be shown)
  and a table that has both code columns, lines 79-82 and 89-91 create neither name
  column, since they lack the inner \<^verbatim>\<open>else\<close> that the cause branch has at lines 111-112:
  the cause text is there, holding the codes, but reading \<^verbatim>\<open>nombre_comunidad\<close> or
  \<^verbatim>\<open>nombre_provincia\<close> raises \<^verbatim>\<open>KeyError\<close>, and the script ends with that exception at
  line 146 before any selector, metric or map is shown.
\<close>

theorem sin_maestros_sin_nombres:
  "cargar_maestros (excel sin_maestros) = Inr ([st_warning (No_se_encuentra ''master_data.xlsx'')], Map.empty)
   \<and> ''idcomunidad'' \<in> set (columnas tabla_codigos)
   \<and> ''idprovincia'' \<in> set (columnas tabla_codigos)
   \<and> snd (cargar_datos pd0 sin_maestros) = traducir pd0 Map.empty tabla_codigos
   \<and> leer ''nombre_comunidad'' (snd (cargar_datos pd0 sin_maestros)) = Inl (KeyError ''nombre_comunidad'')
   \<and> leer ''nombre_provincia'' (snd (cargar_datos pd0 sin_maestros)) = Inl (KeyError ''nombre_provincia'')
   \<and> celda (filas (snd (cargar_datos pd0 sin_maestros)) ! 0) ''nombre_comunidad'' \<noteq> Texto ''Desconocido''
   \<and> leer ''causa_texto'' (snd (cargar_datos pd0 sin_maestros)) = Inr [Num 7, Num 3]
   \<and> app pd0 sin_maestros todo_2020 =
       ([st_warning (No_se_encuentra ''master_data.xlsx'')], Fallo (KeyError ''nombre_comunidad''))"
proof -
  let ?df = "traducir pd0 Map.empty tabla_codigos"
  have m: "cargar_maestros (excel sin_maestros) = Inr ([st_warning (No_se_encuentra ''master_data.xlsx'')], Map.empty)"
    by (simp add: sin_maestros_def cargar_maestros_def leer_maestros_def archivo_meta_def)
  have cols: "set (columnas ?df) = {''causa_texto'', ''idcomunidad'', ''idprovincia'', ''causa''}"
    by (simp add: traducir_columnas codigos_tabla_codigos)
  then have no_com: "''nombre_comunidad'' \<notin> set (columnas ?df)"
    and no_prov: "''nombre_provincia'' \<notin> set (columnas ?df)"
    by simp_all
  have "columnas ?df \<noteq> []"
  proof
    assume "columnas ?df = []"
    then have "set (columnas ?df) = {}" by simp
    with cols show False by simp
  qed
  moreover have "filas ?df \<noteq> []"
  proof
    assume e: "filas ?df = []"
    have "length (filas ?df) = 2"
      by (simp add: codigos_tabla_codigos)
    then show False unfolding e by simp
  qed
  ultimately have ne: "\<not> empty ?df"
    by (simp add: empty_def)
  have "columna ''nombre_comunidad'' ?df = columna ''nombre_comunidad'' tabla_codigos"
    by (simp add: traducir_columna_comunidad nombres_None codigos_tabla_codigos columna_asignar_other)
  also have "\<dots> = [NaN, NaN]"
    by (simp add: columna_def tabla_codigos_def)
  finally have "columna ''nombre_comunidad'' ?df ! 0 = NaN" by simp
  then have celda0: "celda (filas ?df ! 0) ''nombre_comunidad'' = NaN"
    using celda_traducir [of 0 tabla_codigos pd0 Map.empty "''nombre_comunidad''"]
    by (simp add: codigos_tabla_codigos)
  from app_sin_columna [OF cargar_datos_sin_maestros ne no_com, of todo_2020]
  have a: "app pd0 sin_maestros todo_2020 =
       ([st_warning (No_se_encuentra ''master_data.xlsx'')], Fallo (KeyError ''nombre_comunidad''))" .
  have en: "''idcomunidad'' \<in> set (columnas tabla_codigos)" "''idprovincia'' \<in> set (columnas tabla_codigos)"
    by (simp_all add: codigos_tabla_codigos)
  have s: "snd (cargar_datos pd0 sin_maestros) = ?df"
    by (simp add: cargar_datos_sin_maestros)
  have l: "leer ''nombre_comunidad'' ?df = Inl (KeyError ''nombre_comunidad'')"
    "leer ''nombre_provincia'' ?df = Inl (KeyError ''nombre_provincia'')"
    using no_com no_prov by (simp_all add: leer_def)
  have c: "celda (filas ?df ! 0) ''nombre_comunidad'' \<noteq> Texto ''Desconocido''"
    by (simp add: celda0)
  have "col_causa_id (columnas tabla_codigos) \<in> set (columnas tabla_codigos)"
    by (simp add: codigos_tabla_codigos)
  then have "columna ''causa_texto'' ?df = to_numeric pd0 (columna ''causa'' tabla_codigos)"
    by (simp add: traducir_causa_texto codigos_tabla_codigos)
  also have "\<dots> = [Num 7, Num 3]"
    by (simp add: to_numeric_def columna_def tabla_codigos_def)
  finally have k: "leer ''causa_texto'' ?df = Inr [Num 7, Num 3]"
    using cols by (simp add: leer_def)
  from m en s l c k a show ?thesis
    by (simp only: s simp_thms)
qed

text \<open>
  The sample is no special case: whenever the reference file cannot be read and the first
  CSV member of the archive is a non-empty table with the region code column and no
  column \<^verbatim>\<open>nombre_comunidad\<close> of its own, the script ends with the same exception, whatever
  the user chooses.
\<close>

lemma app_sin_diccionario:
  assumes c: "cargar_datos pd env = (avisos, traducir pd dic df)"
    and "dic ''comunidades'' = None" and "''idcomunidad'' \<in> set (columnas df)"
    and "''nombre_comunidad'' \<notin> set (columnas df)" and "filas df \<noteq> []"
  shows "app pd env sel = (avisos, Fallo (KeyError ''nombre_comunidad''))"
proof -
  let ?df = "traducir pd dic df"
  have no: "''nombre_comunidad'' \<notin> set (columnas ?df)"
    using assms(2-4) by (simp add: traducir_columnas)
  have "''causa_texto'' \<in> set (columnas ?df)"
    by (simp add: traducir_columnas)
  then have "columnas ?df \<noteq> []" by auto
  moreover have "filas ?df \<noteq> []"
  proof
    assume e: "filas ?df = []"
    have "length (filas ?df) = length (filas df)" by simp
    with assms(5) show False unfolding e by simp
  qed
  ultimately have "\<not> empty ?df" by (simp add: empty_def)
  from app_sin_columna [OF c this no] show ?thesis .
qed

lemma app_sin_maestros:
  assumes "excel env = Falla e" and "archivo_zip env = Exito z"
    and "filter (\<lambda>(f, csv). endswith f ''.csv'' \<and> \<not> contiene ''__MACOSX'' f) z = (f, Exito df) # otros"
    and "''idcomunidad'' \<in> set (columnas df)" and "''nombre_comunidad'' \<notin> set (columnas df)"
    and "filas df \<noteq> []"
  shows "\<exists>avisos. app pd env sel = (avisos, Fallo (KeyError ''nombre_comunidad''))"
proof -
  obtain avisos where "cargar_maestros (excel env) = Inr (avisos, Map.empty)"
    using assms(1) by (cases e) (simp_all add: cargar_maestros_def leer_maestros_def)
  with assms(2,3) have "cargar_datos pd env = (avisos, traducir pd Map.empty df)"
    by (simp add: cargar_datos_def leer_datos_def)
  from app_sin_diccionario [OF this _ assms(4-6)] show ?thesis by auto
qed

text \<open>
  The other fallbacks of the loader are in place. In every row of the table that it
  builds: where the table read has the region (province) code column and the region
  (province) dictionary exists but has no entry for the coerced code, the name is the
  code as text; where the table has a cause column and the cause dictionary exists but
  has no entry for the code, the cause text is \<^verbatim>\<open>Causa\<close>, a space and the code as text;
  where the table read has no region (province) code column, the name is the placeholder
  \<^verbatim>\<open>Desconocido\<close>; and where the table has a cause column and there is no cause
  dictionary, the cause text is the cause code of the row, as coerced, with no
  placeholder.
\<close>

lemma etiquetas_sin_entrada:
  "i < length (filas df) \<Longrightarrow>
   (''idcomunidad'' \<in> set (columnas df) \<and> dic ''comunidades'' = Some dc
      \<and> dc (codigo pd ''idcomunidad'' df i) = None
     \<longrightarrow> celda (filas (traducir pd dic df) ! i) ''nombre_comunidad''
           = Texto (codigo_str pd ''idcomunidad'' df i))
   \<and> (''idprovincia'' \<in> set (columnas df) \<and> dic ''provincias'' = Some dp
      \<and> dp (codigo pd ''idprovincia'' df i) = None
     \<longrightarrow> celda (filas (traducir pd dic df) ! i) ''nombre_provincia''
           = Texto (codigo_str pd ''idprovincia'' df i))
   \<and> (col_causa_id (columnas df) \<in> set (columnas df) \<and> dic ''causas'' = Some dk
      \<and> dk (codigo pd (col_causa_id (columnas df)) df i) = None
     \<longrightarrow> celda (filas (traducir pd dic df) ! i) ''causa_texto''
           = Texto (''Causa '' @ codigo_str pd (col_causa_id (columnas df)) df i))
   \<and> (''idcomunidad'' \<notin> set (columnas df)
     \<longrightarrow> celda (filas (traducir pd dic df) ! i) ''nombre_comunidad'' = Texto ''Desconocido'')
   \<and> (''idprovincia'' \<notin> set (columnas df)
     \<longrightarrow> celda (filas (traducir pd dic df) ! i) ''nombre_provincia'' = Texto ''Desconocido'')
   \<and> (col_causa_id (columnas df) \<in> set (columnas df) \<and> dic ''causas'' = None
     \<longrightarrow> celda (filas (traducir pd dic df) ! i) ''causa_texto''
           = celda (filas (traducir pd dic df) ! i) (col_causa_id (columnas df))
       \<and> celda (filas (traducir pd dic df) ! i) ''causa_texto''
           = codigo pd (col_causa_id (columnas df)) df i)"
proof -
  assume i: "i < length (filas df)"
  let ?res = "traducir pd dic df"
  have com: "celda (filas ?res ! i) ''nombre_comunidad'' = Texto (codigo_str pd ''idcomunidad'' df i)"
    if "''idcomunidad'' \<in> set (columnas df)" "dic ''comunidades'' = Some dc"
      "dc (codigo pd ''idcomunidad'' df i) = None"
    using i that by (simp add: celda_traducir traducir_comunidad_Some etiqueta_nth)
  have prov: "celda (filas ?res ! i) ''nombre_provincia'' = Texto (codigo_str pd ''idprovincia'' df i)"
    if "''idprovincia'' \<in> set (columnas df)" "dic ''provincias'' = Some dp"
      "dp (codigo pd ''idprovincia'' df i) = None"
    using i that by (simp add: celda_traducir traducir_provincia_Some etiqueta_nth)
  have causa: "celda (filas ?res ! i) ''causa_texto''
           = Texto (''Causa '' @ codigo_str pd (col_causa_id (columnas df)) df i)"
    if "col_causa_id (columnas df) \<in> set (columnas df)" "dic ''causas'' = Some dk"
      "dk (codigo pd (col_causa_id (columnas df)) df i) = None"
    using i that by (simp add: celda_traducir traducir_causa_texto etiqueta_nth)
  have sin_com: "celda (filas ?res ! i) ''nombre_comunidad'' = Texto ''Desconocido''"
    if "''idcomunidad'' \<notin> set (columnas df)"
    using i that by (simp add: celda_traducir traducir_comunidad_ausente)
  have sin_prov: "celda (filas ?res ! i) ''nombre_provincia'' = Texto ''Desconocido''"
    if "''idprovincia'' \<notin> set (columnas df)"
    using i that by (simp add: celda_traducir traducir_provincia_ausente)
  have sin_dic: "celda (filas ?res ! i) ''causa_texto''
           = celda (filas ?res ! i) (col_causa_id (columnas df))
       \<and> celda (filas ?res ! i) ''causa_texto'' = codigo pd (col_causa_id (columnas df)) df i"
    if "col_causa_id (columnas df) \<in> set (columnas df)" "dic ''causas'' = None"
    using i that
    by (simp add: celda_traducir traducir_causa_texto traducir_columna_causa_id to_numeric_nth)
  from com prov causa sin_com sin_prov sin_dic show ?thesis by blast
qed

text \<open>
  The code 7 in dictionaries that only know the code 3: the region column holds a
  missing value after the coercion and prints \<^verbatim>\<open>7.0\<close>, the province and cause columns
  hold whole numbers and print \<^verbatim>\<open>7\<close>. Then a table without code columns, and a cause
  column read without dictionaries.
\<close>

lemma etiquetas_sin_entrada_ejemplo:
  "celda (filas (traducir pd0 solo_tres tabla_codigos) ! 0) ''nombre_comunidad'' = Texto ''7.0''
   \<and> celda (filas (traducir pd0 solo_tres tabla_codigos) ! 0) ''nombre_provincia'' = Texto ''7''
   \<and> celda (filas (traducir pd0 solo_tres tabla_codigos) ! 0) ''causa_texto'' = Texto ''Causa 7''
   \<and> celda (filas (traducir pd0 solo_tres tabla_sin_causa) ! 0) ''nombre_comunidad'' = Texto ''Desconocido''
   \<and> celda (filas (traducir pd0 solo_tres tabla_sin_causa) ! 0) ''nombre_provincia'' = Texto ''Desconocido''
   \<and> celda (filas (traducir pd0 Map.empty tabla_idcausa) ! 0) ''causa_texto'' = Num 3"
proof -
  have a: "celda (filas (traducir pd0 solo_tres tabla_codigos) ! 0) ''nombre_comunidad'' = Texto ''7.0''
     \<and> celda (filas (traducir pd0 solo_tres tabla_codigos) ! 0) ''nombre_provincia'' = Texto ''7''
     \<and> celda (filas (traducir pd0 solo_tres tabla_codigos) ! 0) ''causa_texto'' = Texto ''Causa 7''"
    using etiquetas_sin_entrada [of 0 tabla_codigos solo_tres "[Num 3 \<mapsto> Texto ''Galicia'']" pd0
        "[Num 3 \<mapsto> Texto ''Lugo'']" "[Num 3 \<mapsto> Texto ''Rayo'']"]
    by (simp add: codigos_tabla_codigos solo_tres_simps)
  have b: "celda (filas (traducir pd0 solo_tres tabla_sin_causa) ! 0) ''nombre_comunidad'' = Texto ''Desconocido''
     \<and> celda (filas (traducir pd0 solo_tres tabla_sin_causa) ! 0) ''nombre_provincia'' = Texto ''Desconocido''"
    using etiquetas_sin_entrada [of 0 tabla_sin_causa solo_tres _ pd0]
    by (simp add: tabla_sin_causa_def)
  have i: "0 < length (filas tabla_idcausa)"
    by (simp add: codigos_tabla_idcausa)
  have h: "col_causa_id (columnas tabla_idcausa) \<in> set (columnas tabla_idcausa)
      \<and> (Map.empty :: maestros) ''causas'' = None"
    by (simp add: codigos_tabla_idcausa)
  from etiquetas_sin_entrada [OF i, of Map.empty _ pd0] h
  have "celda (filas (traducir pd0 Map.empty tabla_idcausa) ! 0) ''causa_texto''
      = codigo pd0 (col_causa_id (columnas tabla_idcausa)) tabla_idcausa 0"
    by blast
  then have c: "celda (filas (traducir pd0 Map.empty tabla_idcausa) ! 0) ''causa_texto'' = Num 3"
    by (simp add: codigos_tabla_idcausa)
  from a b c show ?thesis by simp
qed

text \<open>
  C5. The name of the cause column is found by one pass over a fixed order: \<^verbatim>\<open>causa\<close>
  if the table has it, else \<^verbatim>\<open>idcausa\<close>, else \<^verbatim>\<open>causa_desc\<close>. When the table has none
  of the three, every cause text is the placeholder of line 114; when it has one, the
  cause text is computed from the column so chosen.
\<close>

theorem col_causa_id_priority:
  "col_causa_id cols =
     (if ''causa'' \<in> set cols then ''causa''
      else if ''idcausa'' \<in> set cols then ''idcausa''
      else if ''causa_desc'' \<in> set cols then ''causa_desc''
      else ''causa'')
   \<and> (''causa'' \<notin> set (columnas df) \<and> ''idcausa'' \<notin> set (columnas df) \<and> ''causa_desc'' \<notin> set (columnas df)
        \<longrightarrow> columna ''causa_texto'' (traducir pd dic df)
              = replicate (length (filas df)) (Texto ''No especificado''))
   \<and> (col_causa_id (columnas df) \<in> set (columnas df)
        \<longrightarrow> columna ''causa_texto'' (traducir pd dic df) =
             (case dic ''causas'' of
                None \<Rightarrow> to_numeric pd (columna (col_causa_id (columnas df)) df)
              | Some d \<Rightarrow>
                  fillna (map_dict d (to_numeric pd (columna (col_causa_id (columnas df)) df)))
                    (map (\<lambda>s. Texto (''Causa '' @ s))
                       (astype_str pd (to_numeric pd (columna (col_causa_id (columnas df)) df))))))"
proof -
  let ?df2 = "con_nombres pd dic df"
  have orden: "col_causa_id cols =
     (if ''causa'' \<in> set cols then ''causa''
      else if ''idcausa'' \<in> set cols then ''idcausa''
      else if ''causa_desc'' \<in> set cols then ''causa_desc''
      else ''causa'')" for cols
    by (simp add: col_causa_id_def Let_def)
  have ninguna: "columna ''causa_texto'' (traducir pd dic df)
              = replicate (length (filas df)) (Texto ''No especificado'')"
    if "''causa'' \<notin> set (columnas df) \<and> ''idcausa'' \<notin> set (columnas df) \<and> ''causa_desc'' \<notin> set (columnas df)"
  proof -
    have "col_causa_id (columnas df) \<notin> set (columnas df)"
      using that by (simp add: orden)
    then have "col_causa_id (columnas ?df2) \<notin> set (columnas ?df2)"
      by (simp only: con_nombres_col_causa(2) not_False_eq_True)
    from this causas_columna_ausente [where df="?df2" and dic=dic and pd=pd] show ?thesis
      by (simp add: traducir_columna_causa_texto con_nombres_def)
  qed
  have alguna: "columna ''causa_texto'' (traducir pd dic df) =
             (case dic ''causas'' of
                None \<Rightarrow> to_numeric pd (columna (col_causa_id (columnas df)) df)
              | Some d \<Rightarrow>
                  fillna (map_dict d (to_numeric pd (columna (col_causa_id (columnas df)) df)))
                    (map (\<lambda>s. Texto (''Causa '' @ s))
                       (astype_str pd (to_numeric pd (columna (col_causa_id (columnas df)) df)))))"
    if "col_causa_id (columnas df) \<in> set (columnas df)"
  proof -
    have en: "col_causa_id (columnas ?df2) \<in> set (columnas ?df2)"
      using that by (simp only: con_nombres_col_causa(2))
    show ?thesis
    proof (cases "dic ''causas''")
      case None
      from en None causas_columna_None [where df="?df2" and dic=dic and pd=pd] show ?thesis
        by (simp add: None traducir_columna_causa_texto con_nombres_col_causa(1)
            con_nombres_columna_causa)
    next
      case (Some d)
      from en Some causas_columna_Some [where df="?df2" and dic=dic and pd=pd and d=d] show ?thesis
        by (simp add: Some traducir_columna_causa_texto con_nombres_col_causa(1)
            con_nombres_columna_causa)
    qed
  qed
  from orden ninguna alguna show ?thesis by blast
qed

text \<open>
  A table with \<^verbatim>\<open>idcausa\<close> and \<^verbatim>\<open>causa_desc\<close> but no \<^verbatim>\<open>causa\<close>, read without dictionaries, and a
  table with none of the three columns.
\<close>

theorem col_causa_id_priority_witness:
  "col_causa_id (columnas tabla_idcausa) = ''idcausa''
   \<and> columna ''causa_texto'' (traducir pd0 Map.empty tabla_idcausa) = [Num 3, NaN]
   \<and> columna ''causa_texto'' (traducir pd0 Map.empty tabla_sin_causa) = [Texto ''No especificado'']"
proof -
  have c: "col_causa_id (columnas tabla_idcausa) = ''idcausa''"
    by (simp add: col_causa_id_def tabla_idcausa_def)
  have en: "col_causa_id (columnas tabla_idcausa) \<in> set (columnas tabla_idcausa)"
    by (simp add: c) (simp add: tabla_idcausa_def)
  have col: "to_numeric pd0 (columna ''idcausa'' tabla_idcausa) = [Num 3, NaN]"
    by (simp add: to_numeric_def columna_def tabla_idcausa_def pd0_def)
  have una: "columna ''causa_texto'' (traducir pd0 Map.empty tabla_idcausa) = [Num 3, NaN]"
    using col_causa_id_priority [of "columnas tabla_idcausa" tabla_idcausa pd0 Map.empty] en
    by (simp add: c col)
  have ninguna: "columna ''causa_texto'' (traducir pd0 Map.empty tabla_sin_causa) = [Texto ''No especificado'']"
    using col_causa_id_priority [of "[]" tabla_sin_causa pd0 Map.empty]
    by (simp add: tabla_sin_causa_def)
  from c una ninguna show ?thesis by simp
qed

text \<open>
  C10. With the dictionaries that \<^verbatim>\<open>cargar_maestros\<close> returns, a record whose region
  (province) code is missing after the numeric coercion gets the name \<^verbatim>\<open>nan\<close> when the
  region (province) dictionary exists: the dictionary has no missing key, because its
  rows went through \<^verbatim>\<open>dropna\<close>, so the lookup gives the missing value and line 82 (91)
  fills it with the code as text, which for the missing value is \<^verbatim>\<open>nan\<close>.
\<close>

theorem nombre_nan:
  "cargar_maestros lectura = Inr (avisos, dic) \<Longrightarrow> i < length (filas df) \<Longrightarrow>
   (''idcomunidad'' \<in> set (columnas df) \<and> dic ''comunidades'' \<noteq> None
      \<and> codigo pd ''idcomunidad'' df i = NaN
     \<longrightarrow> celda (filas (traducir pd dic df) ! i) ''nombre_comunidad'' = Texto ''nan'')
   \<and> (''idprovincia'' \<in> set (columnas df) \<and> dic ''provincias'' \<noteq> None
      \<and> codigo pd ''idprovincia'' df i = NaN
     \<longrightarrow> celda (filas (traducir pd dic df) ! i) ''nombre_provincia'' = Texto ''nan'')"
proof -
  assume m: "cargar_maestros lectura = Inr (avisos, dic)" and i: "i < length (filas df)"
  have com: "celda (filas (traducir pd dic df) ! i) ''nombre_comunidad'' = Texto ''nan''"
    if "''idcomunidad'' \<in> set (columnas df)" "dic ''comunidades'' \<noteq> None"
      "codigo pd ''idcomunidad'' df i = NaN"
  proof -
    from that(2) obtain d where d: "dic ''comunidades'' = Some d" by blast
    have "d NaN = None" by (rule cargar_maestros_NaN [OF m d])
    with i that(1,3) d show ?thesis
      by (simp add: celda_traducir traducir_comunidad_Some etiqueta_nth codigo_str_def)
  qed
  have prov: "celda (filas (traducir pd dic df) ! i) ''nombre_provincia'' = Texto ''nan''"
    if "''idprovincia'' \<in> set (columnas df)" "dic ''provincias'' \<noteq> None"
      "codigo pd ''idprovincia'' df i = NaN"
  proof -
    from that(2) obtain d where d: "dic ''provincias'' = Some d" by blast
    have "d NaN = None" by (rule cargar_maestros_NaN [OF m d])
    with i that(1,3) d show ?thesis
      by (simp add: celda_traducir traducir_provincia_Some etiqueta_nth codigo_str_def)
  qed
  from com prov show ?thesis by blast
qed

text \<open>
  The region dictionary of the sample reference table and a record whose region code
  is the text \<^verbatim>\<open>Galicia\<close>.
\<close>

theorem nombre_nan_witness:
  "\<exists>dic. cargar_maestros (Exito tabla_regiones) = Inr ([], dic)
     \<and> dic ''comunidades'' \<noteq> None
     \<and> celda (filas tabla_codigos ! 1) ''idcomunidad'' = Texto ''Galicia''
     \<and> codigo pd0 ''idcomunidad'' tabla_codigos 1 = NaN
     \<and> celda (filas (traducir pd0 dic tabla_codigos) ! 1) ''nombre_comunidad'' = Texto ''nan''"
proof -
  obtain dic where m: "cargar_maestros (Exito tabla_regiones) = Inr ([], dic)"
    and c: "dic ''comunidades'' \<noteq> None"
    by (simp add: cargar_maestros_def leer_maestros_def tabla_regiones_def Let_def)
  have i: "1 < length (filas tabla_codigos)"
    by (simp add: codigos_tabla_codigos)
  have col: "''idcomunidad'' \<in> set (columnas tabla_codigos)"
    by (simp add: codigos_tabla_codigos)
  have raw: "celda (filas tabla_codigos ! 1) ''idcomunidad'' = Texto ''Galicia''"
    by (simp add: tabla_codigos_def)
  from nombre_nan [OF m i, of pd0] c col codigos_tabla_codigos(4)
  have "celda (filas (traducir pd0 dic tabla_codigos) ! 1) ''nombre_comunidad'' = Texto ''nan''"
    by blast
  with m c raw codigos_tabla_codigos(4) show ?thesis by blast
qed

text \<open>
  C7. When the body of the loader raises, whatever was shown before stays, the error of
  line 125 is shown with the message of the exception, and the empty table is returned;
  this is so when the archive cannot be opened and when its first CSV member cannot be
  read. Whenever the table returned is empty, the script shows the message of line 131
  after what the loader showed and stops: no selector, metric or map is shown.
\<close>

theorem cargar_datos_excepcion:
  "(leer_datos pd env = (avisos, Inl e) \<longrightarrow>
      cargar_datos pd env = (avisos @ [st_error (Error_cargando_datos (mensaje e))], DataFrame)
      \<and> app pd env sel =
          (avisos @ [st_error (Error_cargando_datos (mensaje e)), st_info Esperando_datos], Detenido))
   \<and> (archivo_zip env = Falla e \<longrightarrow>
        (\<exists>avisos. cargar_datos pd env = (avisos @ [st_error (Error_cargando_datos (mensaje e))], DataFrame)))
   \<and> (archivo_zip env = Exito z
        \<and> filter (\<lambda>(f, csv). endswith f ''.csv'' \<and> \<not> contiene ''__MACOSX'' f) z = (f, Falla e) # otros \<longrightarrow>
        (\<exists>avisos. cargar_datos pd env = (avisos @ [st_error (Error_cargando_datos (mensaje e))], DataFrame)))
   \<and> (empty (snd (cargar_datos pd env)) \<longrightarrow>
        app pd env sel = (fst (cargar_datos pd env) @ [st_info Esperando_datos], Detenido))"
proof -
  have a: "cargar_datos pd env = (avisos @ [st_error (Error_cargando_datos (mensaje e))], DataFrame)
      \<and> app pd env sel =
          (avisos @ [st_error (Error_cargando_datos (mensaje e)), st_info Esperando_datos], Detenido)"
    if "leer_datos pd env = (avisos, Inl e)"
    using cargar_datos_Inl [OF that] app_empty [OF cargar_datos_Inl [OF that] empty_DataFrame, of sel]
    by simp
  have b: "\<exists>avisos. cargar_datos pd env = (avisos @ [st_error (Error_cargando_datos (mensaje e))], DataFrame)"
    if "archivo_zip env = Falla e"
    using leer_datos_zip_Falla [OF that, of pd] cargar_datos_Inl by blast
  have c: "\<exists>avisos. cargar_datos pd env = (avisos @ [st_error (Error_cargando_datos (mensaje e))], DataFrame)"
    if "archivo_zip env = Exito z
        \<and> filter (\<lambda>(f, csv). endswith f ''.csv'' \<and> \<not> contiene ''__MACOSX'' f) z = (f, Falla e) # otros"
    using leer_datos_csv_Falla [of env z f e otros pd] that cargar_datos_Inl by blast
  have d: "app pd env sel = (fst (cargar_datos pd env) @ [st_info Esperando_datos], Detenido)"
    if "empty (snd (cargar_datos pd env))"
    using app_empty [of pd env "fst (cargar_datos pd env)" "snd (cargar_datos pd env)" sel] that
    by simp
  from a b c d show ?thesis by blast
qed

text \<open>
  Neither file exists: the warning of the metadata, the error of the loader, the message
  of line 131, and the stop.
\<close>

theorem cargar_datos_excepcion_witness:
  "cargar_datos pd0 sin_archivos =
     ([st_warning (No_se_encuentra ''master_data.xlsx''),
       st_error (Error_cargando_datos ''fires-all.csv.zip'')], DataFrame)
   \<and> app pd0 sin_archivos todo_2020 =
     ([st_warning (No_se_encuentra ''master_data.xlsx''),
       st_error (Error_cargando_datos ''fires-all.csv.zip''),
       st_info Esperando_datos], Detenido)"
  using cargar_datos_excepcion [of pd0 sin_archivos "[st_warning (No_se_encuentra ''master_data.xlsx'')]"
      "FileNotFoundError ''fires-all.csv.zip''" todo_2020] leer_datos_sin_archivos
  by simp

section \<open>Properties of the filters\<close>

text \<open>
  C3. Choosing the sentinel in a box leaves the table as it was before that filter: the
  condition of lines 149, 156 and 163 is false and the table is not touched, whatever the
  table and whatever the other choices. With the sentinel in all three boxes the sidebar
  returns the table of the year filter.
\<close>

theorem todas_no_op:
  "filtrar ''Todas'' ''nombre_comunidad'' ''Todas'' df_filtrado = Inr df_filtrado
   \<and> filtrar ''Todas'' ''nombre_provincia'' ''Todas'' df_filtrado = Inr df_filtrado
   \<and> filtrar ''Todos'' ''municipio'' ''Todos'' df_filtrado = Inr df_filtrado
   \<and> (comunidad_sel sel = ''Todas'' \<and> provincia_sel sel = ''Todas'' \<and> municipio_sel sel = ''Todos''
        \<and> barra_lateral pd df sel = (es, Inr df_final)
       \<longrightarrow> df_final = filtro_anios (min_year sel) (max_year sel) df)"
proof -
  have "df_final = filtro_anios (min_year sel) (max_year sel) df"
    if "comunidad_sel sel = ''Todas''" "provincia_sel sel = ''Todas''" "municipio_sel sel = ''Todos''"
      "barra_lateral pd df sel = (es, Inr df_final)"
    using that
    by (auto simp: barra_lateral_def luego_def caja_todas split: sum.splits prod.splits)
  then show ?thesis
    by (simp add: filtrar_def)
qed

text \<open>
  Three records of 2019, 2020 and 2020, the year 2020 and the sentinel in every box.
\<close>

theorem todas_no_op_witness:
  "\<exists>es. barra_lateral pd0 tabla_tres todo_2020 =
      (es, Inr \<lparr>columnas = [''nombre_comunidad'', ''nombre_provincia'', ''municipio'', ''superficie''],
               filas = [incendio 2020 ''Galicia'' ''Ourense'' ''Verin'' 20,
                        incendio 2020 ''Asturias'' ''Asturias'' ''Llanes'' 60]\<rparr>)"
proof -
  have "\<exists>es df_final. barra_lateral pd0 tabla_tres todo_2020 = (es, Inr df_final)"
    by (simp add: barra_lateral_def luego_def caja_todas todo_2020_def opciones_def leer_def
        filas_tabla_tres_2020)
  then obtain es df_final where b: "barra_lateral pd0 tabla_tres todo_2020 = (es, Inr df_final)"
    by blast
  have "df_final = filtro_anios (min_year todo_2020) (max_year todo_2020) tabla_tres"
    using todas_no_op [of tabla_tres todo_2020 pd0 tabla_tres es df_final] b
    by (simp add: todo_2020_def)
  with b show ?thesis
    by (auto simp: todo_2020_def filas_tabla_tres_2020)
qed

text \<open>
  C4. The year filter of line 142 keeps exactly the rows whose year lies in the closed
  range; every year of the result, and so its least and greatest year, lies in the range;
  and the result is the lower-bound filter followed by the upper-bound filter, or the two
  in the other order.
\<close>

theorem filtro_anios_rango:
  "filas (filtro_anios y1 y2 df) = filter (en_rango y1 y2) (filas df)
   \<and> columnas (filtro_anios y1 y2 df) = columnas df
   \<and> (\<forall>y \<in> set (anios_de (filtro_anios y1 y2 df)). y1 \<le> y \<and> y \<le> y2)
   \<and> (anios_de (filtro_anios y1 y2 df) \<noteq> [] \<longrightarrow>
        y1 \<le> Min (set (anios_de (filtro_anios y1 y2 df)))
        \<and> Max (set (anios_de (filtro_anios y1 y2 df))) \<le> y2)
   \<and> filtro_anios y1 y2 df = filtro_hasta y2 (filtro_desde y1 df)
   \<and> filtro_anios y1 y2 df = filtro_desde y1 (filtro_hasta y2 df)"
proof -
  let ?res = "filtro_anios y1 y2 df"
  have filas: "filas ?res = filter (en_rango y1 y2) (filas df)"
    by (rule filas_filtro_anios)
  have cols: "columnas ?res = columnas df"
    by (simp add: filtro_anios_def)
  have dentro: "\<forall>y \<in> set (anios_de ?res). y1 \<le> y \<and> y \<le> y2"
    by (auto simp: set_anios_de filas en_rango_def)
  have extremos: "y1 \<le> Min (set (anios_de ?res)) \<and> Max (set (anios_de ?res)) \<le> y2"
    if "anios_de ?res \<noteq> []"
  proof -
    from that have "Min (set (anios_de ?res)) \<in> set (anios_de ?res)"
      and "Max (set (anios_de ?res)) \<in> set (anios_de ?res)"
      using Min_in [of "set (anios_de ?res)"] Max_in [of "set (anios_de ?res)"] by auto
    with dentro show ?thesis by blast
  qed
  have pred: "en_rango y1 y2 = (\<lambda>r. year_ge (fecha r) y1 \<and> year_le (fecha r) y2)"
    by (auto simp: en_rango_def year_ge_def year_le_def fun_eq_iff split: option.split)
  have res: "?res = df\<lparr>filas := filter (en_rango y1 y2) (filas df)\<rparr>"
    using filas by (simp add: filtro_anios_def)
  have a: "?res = filtro_hasta y2 (filtro_desde y1 df)"
    unfolding res by (simp add: filtro_hasta_def filtro_desde_def pred)
  have pred': "en_rango y1 y2 = (\<lambda>r. year_le (fecha r) y2 \<and> year_ge (fecha r) y1)"
    by (auto simp: pred)
  have b: "?res = filtro_desde y1 (filtro_hasta y2 df)"
    unfolding res by (simp add: filtro_hasta_def filtro_desde_def pred')
  from filas cols dentro extremos a b show ?thesis by blast
qed

text \<open>
  The same three records and the range from 2020 to 2020: the two records of 2020 stay.
\<close>

theorem filtro_anios_rango_witness:
  "filas (filtro_anios 2020 2020 tabla_tres) =
     [incendio 2020 ''Galicia'' ''Ourense'' ''Verin'' 20,
      incendio 2020 ''Asturias'' ''Asturias'' ''Llanes'' 60]
   \<and> anios_de (filtro_anios 2020 2020 tabla_tres) = [2020, 2020]
   \<and> Min (set (anios_de (filtro_anios 2020 2020 tabla_tres))) = 2020
   \<and> filtro_hasta 2020 (filtro_desde 2020 tabla_tres) = filtro_desde 2020 (filtro_hasta 2020 tabla_tres)"
proof -
  have f: "filter (en_rango 2020 2020) (filas tabla_tres) =
     [incendio 2020 ''Galicia'' ''Ourense'' ''Verin'' 20,
      incendio 2020 ''Asturias'' ''Asturias'' ''Llanes'' 60]"
    by (simp add: en_rango_def tabla_tres_def incendio_def)
  have a: "anios_de (filtro_anios 2020 2020 tabla_tres) = [2020, 2020]"
    by (simp add: anios_de_def filas_tabla_tres_2020 incendio_def List.map_filter_def)
  note t = filtro_anios_rango [of 2020 2020 tabla_tres]
  from t have 1: "filas (filtro_anios 2020 2020 tabla_tres) = filter (en_rango 2020 2020) (filas tabla_tres)"
    by blast
  from t a have 2: "Min (set (anios_de (filtro_anios 2020 2020 tabla_tres))) = 2020"
    by simp
  from t have 3: "filtro_hasta 2020 (filtro_desde 2020 tabla_tres) = filtro_desde 2020 (filtro_hasta 2020 tabla_tres)"
    by metis
  from 1 2 3 a f show ?thesis by simp
qed

text \<open>
  C8. The option lists cascade. Whenever the sidebar is built, the province options
  after the sentinel are exactly the province names, as texts, of the records that lie
  in the chosen year range and, when a region is chosen, have that region as their
  name; so they are a subset of the province names of that region. The municipality
  options are the municipality names of the records that pass the year, region and
  province filters, and the region options those of the records in the year range:
  each list is computed from the table that the earlier filters returned, a sublist of
  the rows of the base table.
\<close>

theorem listas_en_cascada:
  "barra_lateral pd df sel = (es, Inr df_final) \<Longrightarrow>
   (\<exists>lc lp lm.
      es = [st_selectbox Comunidad_Autonoma (''Todas'' # lc),
            st_selectbox Provincia (''Todas'' # lp),
            st_selectbox Municipio (''Todos'' # lm)]
      \<and> set lc = nombres_en pd ''nombre_comunidad'' (filtro_anios (min_year sel) (max_year sel) df)
      \<and> set lp = nombres_en pd ''nombre_provincia'' (tras_region sel df)
      \<and> set lm = nombres_en pd ''municipio'' (tras_provincia sel df))
   \<and> (comunidad_sel sel \<noteq> ''Todas'' \<longrightarrow>
        (\<forall>r \<in> set (filas (tras_region sel df)).
           r \<in> set (filas df) \<and> en_rango (min_year sel) (max_year sel) r
           \<and> celda r ''nombre_comunidad'' = Texto (comunidad_sel sel)))
   \<and> set (filas (tras_provincia sel df)) \<subseteq> set (filas (tras_region sel df))
   \<and> set (filas (tras_region sel df)) \<subseteq> set (filas (filtro_anios (min_year sel) (max_year sel) df))
   \<and> set (filas (filtro_anios (min_year sel) (max_year sel) df)) \<subseteq> set (filas df)"
proof -
  assume b: "barra_lateral pd df sel = (es, Inr df_final)"
  have listas: "\<exists>lc lp lm.
      es = [st_selectbox Comunidad_Autonoma (''Todas'' # lc),
            st_selectbox Provincia (''Todas'' # lp),
            st_selectbox Municipio (''Todos'' # lm)]
      \<and> set lc = nombres_en pd ''nombre_comunidad'' (filtro_anios (min_year sel) (max_year sel) df)
      \<and> set lp = nombres_en pd ''nombre_provincia'' (tras_region sel df)
      \<and> set lm = nombres_en pd ''municipio'' (tras_provincia sel df)"
    using barra_lateral_Inr [OF b] by (simp add: nombres_en_def)
  have region: "\<forall>r \<in> set (filas (tras_region sel df)).
           r \<in> set (filas df) \<and> en_rango (min_year sel) (max_year sel) r
           \<and> celda r ''nombre_comunidad'' = Texto (comunidad_sel sel)"
    if "comunidad_sel sel \<noteq> ''Todas''"
    using that by (simp add: tras_region_def pasa_def)
  have sub: "set (filas (tras_provincia sel df)) \<subseteq> set (filas (tras_region sel df))"
    "set (filas (tras_region sel df)) \<subseteq> set (filas (filtro_anios (min_year sel) (max_year sel) df))"
    "set (filas (filtro_anios (min_year sel) (max_year sel) df)) \<subseteq> set (filas df)"
    by (auto simp: tras_provincia_def tras_region_def filas_filtro_anios)
  from listas region sub show ?thesis by blast
qed

text \<open>
  The three records with Galicia and Lugo chosen: the provinces offered are those of
  Galicia, the municipalities those of Lugo, fewer than the base table holds.
\<close>

theorem listas_en_cascada_witness:
  "barra_lateral pd0 tabla_tres galicia_lugo =
     ([st_selectbox Comunidad_Autonoma [''Todas'', ''Asturias'', ''Galicia''],
       st_selectbox Provincia [''Todas'', ''Lugo'', ''Ourense''],
       st_selectbox Municipio [''Todos'', ''Viveiro'']],
      Inr \<lparr>columnas = [''nombre_comunidad'', ''nombre_provincia'', ''municipio'', ''superficie''],
           filas = [incendio 2019 ''Galicia'' ''Lugo'' ''Viveiro'' 5]\<rparr>)
   \<and> nombres_en pd0 ''nombre_provincia'' (tras_region galicia_lugo tabla_tres) = {''Lugo'', ''Ourense''}
   \<and> nombres_en pd0 ''municipio'' (tras_provincia galicia_lugo tabla_tres) = {''Viveiro''}
   \<and> nombres_en pd0 ''nombre_provincia'' tabla_tres = {''Lugo'', ''Ourense'', ''Asturias''}
   \<and> nombres_en pd0 ''municipio'' tabla_tres = {''Viveiro'', ''Verin'', ''Llanes''}"
proof -
  from listas_en_cascada [OF barra_lateral_galicia_lugo]
  have "nombres_en pd0 ''nombre_provincia'' (tras_region galicia_lugo tabla_tres) = {''Lugo'', ''Ourense''}
      \<and> nombres_en pd0 ''municipio'' (tras_provincia galicia_lugo tabla_tres) = {''Viveiro''}"
    by auto
  moreover have "nombres_en pd0 ''nombre_provincia'' tabla_tres = {''Lugo'', ''Ourense'', ''Asturias''}
      \<and> nombres_en pd0 ''municipio'' tabla_tres = {''Viveiro'', ''Verin'', ''Llanes''}"
    by (simp add: nombres_en_def astype_str_def columna_def tabla_tres_def incendio_def)
  ultimately show ?thesis
    using barra_lateral_galicia_lugo by simp
qed

section \<open>Properties of the map\<close>

text \<open>
  C1. The map never shows more than 2000 points, and never more than the rows that have
  both coordinates. When more than 2000 rows have both coordinates, the warning of line
  187 is shown with their number and the map is cut to the first 1000 of them.
\<close>

theorem mapa_cap:
  "mapa df_filtrado = (es, r) \<Longrightarrow>
     (\<forall>ms. st_folium ms \<in> set es \<longrightarrow>
        length ms \<le> 2000 \<and> length ms \<le> length (con_coordenadas df_filtrado))
   \<and> (2000 < length (con_coordenadas df_filtrado)
        \<and> ''lat'' \<in> set (columnas df_filtrado) \<and> ''lng'' \<in> set (columnas df_filtrado) \<longrightarrow>
          st_warning (Hay_puntos (length (con_coordenadas df_filtrado))) \<in> set es
        \<and> (\<forall>ms. st_folium ms \<in> set es \<longrightarrow>
              marcadores (columnas df_filtrado) (take 1000 (con_coordenadas df_filtrado)) = Inr ms
              \<and> length ms = 1000)
        \<and> (r = Inr () \<longrightarrow> (\<exists>ms. st_folium ms \<in> set es)))"
  using marcadores_length [of "columnas df_filtrado" "take 1000 (con_coordenadas df_filtrado)"]
    marcadores_length [of "columnas df_filtrado" "con_coordenadas df_filtrado"]
  by (auto simp: mapa_casos split: if_splits sum.splits)

text \<open>
  A table of 2001 records with coordinates: the warning, and a map of 1000 markers.
\<close>

theorem mapa_cap_witness:
  "mapa muchos_puntos =
     ([st_warning (Hay_puntos 2001), st_folium (replicate 1000 (CircleMarker (Num 40) (Num (- 3)) ''orange''))],
      Inr ())
   \<and> length (con_coordenadas muchos_puntos) = 2001
   \<and> length (replicate 1000 (CircleMarker (Num 40) (Num (- 3)) ''orange'')) \<le> 2000"
  using mapa_cap [OF mapa_muchos_puntos] mapa_muchos_puntos
  by (simp add: con_coordenadas_muchos)

text \<open>
  C9. A map point whose area is missing is green, the colour of an area of at most 10:
  both comparisons of line 195 are false on the missing value, so it is never orange or
  dark red. This holds for every marker that the loop of lines 193-210 builds.
\<close>

theorem color_missing_green:
  "color NaN = Inr ''green''
   \<and> (x \<le> 10 \<longrightarrow> color (Num x) = color NaN)
   \<and> color NaN \<noteq> Inr ''orange'' \<and> color NaN \<noteq> Inr ''darkred''
   \<and> (marcadores cols rows = Inr ms \<longrightarrow> i < length rows \<longrightarrow>
        celda (rows ! i) ''superficie'' = NaN \<longrightarrow>
        ms ! i = CircleMarker (celda (rows ! i) ''lat'') (celda (rows ! i) ''lng'') ''green'')"
proof -
  have verde: "color NaN = Inr ''green''"
    by (simp add: color_def)
  have "color (Num x) = Inr ''green''" if "x \<le> 10"
    using that by (simp add: color_def)
  moreover have "ms ! i = CircleMarker (celda (rows ! i) ''lat'') (celda (rows ! i) ''lng'') ''green''"
    if "marcadores cols rows = Inr ms" "i < length rows" "celda (rows ! i) ''superficie'' = NaN"
    using marcadores_nth [OF that(1,2)] that(3) verde by auto
  ultimately show ?thesis using verde by simp
qed

text \<open>
  A point with coordinates and no area, and the boundary area 10.
\<close>

theorem color_missing_green_witness:
  "color (Num 10) = Inr ''green''
   \<and> marcadores [''superficie'', ''lat'', ''lng''] [punto_sin_superficie]
       = Inr [CircleMarker (Num 40) (Num (- 3)) ''green'']"
proof -
  have m: "marcadores [''superficie'', ''lat'', ''lng''] [punto_sin_superficie]
       = Inr [CircleMarker (Num 40) (Num (- 3)) ''green'']"
    by (simp add: punto_sin_superficie_def color_def)
  show ?thesis
    using color_missing_green [of 10 "[''superficie'', ''lat'', ''lng'']" "[punto_sin_superficie]"
        "[CircleMarker (Num 40) (Num (- 3)) ''green'']" 0] m
    by simp
qed

end
